theory Spec2Isabelle
  imports Complex_Main
begin

chapter \<open>A shallow embedding of the 1C automation helpers\<close>

text \<open>
  The repository drives a desktop application through UI automation. The functions
  embedded here are the ones with a contract of their own: the numeric and date
  helpers, the polling and retry loops, the record constructors, the schema setup and
  the notification glue. Library calls (\<open>float\<close>, \<open>datetime.fromisoformat\<close>,
  \<open>SequenceMatcher\<close>, the UI toolkit, SMTP) are parameters of the embedded functions:
  any behaviour of the library is a possible argument.
\<close>

section \<open>Python values and exceptions\<close>

text \<open>
  An exception is its class and its message. \<open>issubclass\<close> is the part of Python's
  exception hierarchy that the embedded \<open>except\<close> clauses can tell apart.
\<close>

datatype exc_class =
    BaseException
  | KeyboardInterrupt
  | Exception
  | ValueError
  | IndexError
  | TypeError
  | AttributeError
  | AssertionError
  | OSError
  | SMTPException
  | SMTPRecipientsRefused
  | SMTPResponseException

datatype py_exc = Raised exc_class string

fun exc_cls :: "py_exc \<Rightarrow> exc_class" where
  "exc_cls (Raised c m) = c"

fun base_class :: "exc_class \<Rightarrow> exc_class option" where
  "base_class BaseException = None"
| "base_class KeyboardInterrupt = Some BaseException"
| "base_class Exception = Some BaseException"
| "base_class ValueError = Some Exception"
| "base_class IndexError = Some Exception"
| "base_class TypeError = Some Exception"
| "base_class AttributeError = Some Exception"
| "base_class AssertionError = Some Exception"
| "base_class OSError = Some Exception"
| "base_class SMTPException = Some OSError"
| "base_class SMTPRecipientsRefused = Some SMTPException"
| "base_class SMTPResponseException = Some SMTPException"

text \<open>The hierarchy above is four levels deep, so four steps up reach every ancestor.\<close>

fun ancestors :: "nat \<Rightarrow> exc_class \<Rightarrow> exc_class list" where
  "ancestors 0 c = [c]"
| "ancestors (Suc n) c =
     (case base_class c of None \<Rightarrow> [c] | Some b \<Rightarrow> c # ancestors n b)"

definition issubclass :: "exc_class \<Rightarrow> exc_class \<Rightarrow> bool" where
  "issubclass c d = (d \<in> set (ancestors 4 c))"

definition isinstance :: "py_exc \<Rightarrow> exc_class \<Rightarrow> bool" where
  "isinstance e d = issubclass (exc_cls e) d"

subsection \<open>\<open>datetime\<close>\<close>

text \<open>
  A \<open>datetime\<close> object. Its constructor refuses fields out of range with a
  \<open>ValueError\<close>; \<open>valid_datetime\<close> is that check (days per month included).
\<close>

record datetime =
  year :: nat
  month :: nat
  day :: nat
  hour :: nat
  minute :: nat
  second :: nat
  microsecond :: nat

definition is_leap :: "nat \<Rightarrow> bool" where
  "is_leap y = (y mod 4 = 0 \<and> (y mod 100 \<noteq> 0 \<or> y mod 400 = 0))"

definition days_in_month :: "nat \<Rightarrow> nat \<Rightarrow> nat" where
  "days_in_month y m =
     (if m = 2 then (if is_leap y then 29 else 28)
      else if m = 4 \<or> m = 6 \<or> m = 9 \<or> m = 11 then 30 else 31)"

definition valid_datetime :: "datetime \<Rightarrow> bool" where
  "valid_datetime d =
     (1 \<le> year d \<and> year d \<le> 9999 \<and> 1 \<le> month d \<and> month d \<le> 12 \<and>
      1 \<le> day d \<and> day d \<le> days_in_month (year d) (month d) \<and>
      hour d < 24 \<and> minute d < 60 \<and> second d < 60 \<and> microsecond d < 1000000)"

text \<open>
  \<open>datetime.fromisoformat\<close> reads the fields out of the string and builds the object
  from them. Reading the fields is the parameter \<open>parse_iso\<close>; building is the checked
  constructor.
\<close>

definition fromisoformat ::
  "(string \<Rightarrow> py_exc + datetime) \<Rightarrow> string \<Rightarrow> py_exc + datetime" where
  "fromisoformat parse_iso s =
     (case parse_iso s of
        Inl e \<Rightarrow> Inl e
      | Inr d \<Rightarrow>
          if valid_datetime d then Inr d
          else Inl (Raised ValueError ''field out of range''))"

text \<open>Decimal digits, and zero padding to a width as \<open>%02d\<close> does.\<close>

definition digit_char :: "nat \<Rightarrow> char" where
  "digit_char n = ''0123456789'' ! n"

fun dec :: "nat \<Rightarrow> string" where
  "dec n = (if n < 10 then [digit_char n] else dec (n div 10) @ [digit_char (n mod 10)])"

declare dec.simps [simp del]

definition zfill :: "nat \<Rightarrow> string \<Rightarrow> string" where
  "zfill w s = replicate (w - length s) CHR ''0'' @ s"

text \<open>
  \<open>dt.strftime("%d.%m.%Y")\<close> and \<open>dt.strftime("%d.%m.%y")\<close>: day and month on two digits,
  the year on four, or its last two digits. (Whether \<open>%Y\<close> pads a year below 1000 depends
  on the platform; it is padded here.)
\<close>

definition strftime_dmY :: "datetime \<Rightarrow> string" where
  "strftime_dmY d =
     zfill 2 (dec (day d)) @ ''.'' @ zfill 2 (dec (month d)) @ ''.'' @ zfill 4 (dec (year d))"

definition strftime_dmy :: "datetime \<Rightarrow> string" where
  "strftime_dmy d =
     zfill 2 (dec (day d)) @ ''.'' @ zfill 2 (dec (month d)) @ ''.'' @
     zfill 2 (dec (year d mod 100))"

subsection \<open>Statements in sequence\<close>

text \<open>Statements run in order on the object they change; the first exception ends the run.\<close>

fun run_steps :: "('a \<Rightarrow> 'e + 'a) list \<Rightarrow> 'a \<Rightarrow> 'e + 'a" where
  "run_steps [] self = Inr self"
| "run_steps (step # steps) self =
     (case step self of Inl e \<Rightarrow> Inl e | Inr self' \<Rightarrow> run_steps steps self')"

section \<open>\<open>src/data.py\<close>\<close>

text \<open>
  \<^verbatim>\<open>
  class Date(NamedTuple):
      dt: datetime
      long: str
      short: str

      @classmethod
      def to_date(cls, dt: datetime) -> "Date":
          return Date(dt, dt.strftime("%d.%m.%Y"), dt.strftime("%d.%m.%y"))
  \<close>
\<close>

record Date =
  dt :: datetime
  long :: string
  short :: string

definition to_date :: "datetime \<Rightarrow> Date" where
  "to_date t = \<lparr>dt = t, long = strftime_dmY t, short = strftime_dmy t\<rparr>"

text \<open>
  The values an attribute or an argument can hold. Python does not enforce an
  annotation, so any of them can arrive where the source writes \<open>Optional[float]\<close> or
  \<open>Date | str | datetime\<close>. The type \<open>'f\<close> stands for Python's \<open>float\<close>.
\<close>

datatype 'f py_value =
    PyNone
  | PyBool bool
  | PyInt int
  | PyFloat 'f
  | PyStr string
  | PyTuple "'f py_value list"
  | PyDatetime datetime
  | PyDate Date

subsection \<open>Jobs\<close>

text \<open>
  \<open>TimeRange\<close>, \<open>Mail\<close> and the fields of \<open>Job\<close> that the notifier reads. The fields
  \<open>start\<close> and \<open>end\<close> of \<open>TimeRange\<close> are \<open>t_start\<close> and \<open>t_end\<close> here, and
  \<open>job.job_type.name\<close> is \<open>job_name\<close>. A \<open>Path\<close> is the list of its components.
\<close>

type_synonym path = "string list"

record TimeRange =
  t_start :: Date
  t_end :: Date

record Mail =
  server :: string
  sender :: string
  recipients :: string
  subject :: string
  report_path :: path
  screenshot_folder :: path

record Job =
  job_name :: string
  t_range :: TimeRange
  mail_info :: Mail

subsection \<open>\<open>convert_date\<close>\<close>

text \<open>
  An object is its attributes by name, as \<open>getattr\<close> and \<open>setattr\<close> see it; reading
  a name the object does not have raises \<open>AttributeError\<close>.
\<close>

type_synonym 'f obj = "string \<rightharpoonup> 'f py_value"

text \<open>
  \<^verbatim>\<open>
  def convert_date(obj: object, field_name: str, date_format: str) -> None:
      field_value = getattr(obj, field_name)
      if isinstance(field_value, Date):
          return
      elif isinstance(field_value, datetime):
          setattr(obj, field_name, Date.to_date(field_value))
      elif isinstance(field_value, str):
          date = datetime.strptime(field_value, date_format)
          setattr(obj, field_name, Date.to_date(date))
      else:
          error_msg = (
              f"Unknown type for a field {field_name} - {type(field_value)} {field_value}"
          )
          logging.error(error_msg)
          raise ValueError(error_msg)
  \<close>
  \<open>strptime\<close> is \<open>datetime.strptime\<close>: the parsed datetime, or the exception it raises.
  The error message is kept up to the field's name; the text of the type and of the value
  that follows it is left out.
\<close>

definition convert_date ::
  "(string \<Rightarrow> string \<Rightarrow> py_exc + datetime) \<Rightarrow> string \<Rightarrow> string \<Rightarrow> 'f obj \<Rightarrow> py_exc + 'f obj"
where
  "convert_date strptime field_name date_format obj =
     (case obj field_name of
        None \<Rightarrow> Inl (Raised AttributeError field_name)
      | Some field_value \<Rightarrow>
          (case field_value of
             PyDate d \<Rightarrow> Inr obj
           | PyDatetime t \<Rightarrow> Inr (obj(field_name \<mapsto> PyDate (to_date t)))
           | PyStr s \<Rightarrow>
               (case strptime s date_format of
                  Inl e \<Rightarrow> Inl e
                | Inr date \<Rightarrow> Inr (obj(field_name \<mapsto> PyDate (to_date date))))
           | _ \<Rightarrow> Inl (Raised ValueError (''Unknown type for a field '' @ field_name))))"

subsection \<open>The order dataclasses\<close>

text \<open>
  The annotation of a field, as the dataclasses write it: \<open>str\<close>, \<open>tuple[str, str]\<close>,
  \<open>bool\<close>, \<open>Date | str | datetime\<close>, \<open>Date\<close>, \<open>str | None\<close>. A field with a default
  (\<open>= None\<close>) may be left out of the call.
\<close>

datatype annotation =
    AnnStr
  | AnnNames
  | AnnBool
  | AnnDateStrDatetime
  | AnnDate
  | AnnOptStr

record field =
  name :: string
  ann :: annotation
  has_default :: bool

definition required :: "string \<Rightarrow> annotation \<Rightarrow> field" where
  "required n a = \<lparr>name = n, ann = a, has_default = False\<rparr>"

definition optional :: "string \<Rightarrow> annotation \<Rightarrow> field" where
  "optional n a = \<lparr>name = n, ann = a, has_default = True\<rparr>"

text \<open>
  The \<open>__init__\<close> that \<open>@dataclass\<close> generates: the arguments fill the fields in
  declaration order, a field left out takes its default \<open>None\<close>, a wrong number of
  arguments is a \<open>TypeError\<close>, and \<open>__post_init__\<close> runs last.
\<close>

definition bind_args :: "field list \<Rightarrow> 'f py_value list \<Rightarrow> 'f obj" where
  "bind_args flds args =
     map_of (zip (map name flds) (args @ replicate (length flds - length args) PyNone))"

definition dataclass_init ::
  "field list \<Rightarrow> ('f obj \<Rightarrow> py_exc + 'f obj) \<Rightarrow> 'f py_value list \<Rightarrow> py_exc + 'f obj" where
  "dataclass_init flds post_init args =
     (if length args < length (filter (\<lambda>f. \<not> has_default f) flds) \<or>
         length flds < length args
      then Inl (Raised TypeError ''__init__() got a wrong number of arguments'')
      else post_init (bind_args flds args))"

definition BusinessTripOrder_fields :: "field list" where
  "BusinessTripOrder_fields =
     [required ''employee_fullname'' AnnStr,
      required ''employee_names'' AnnNames,
      required ''order_number'' AnnStr,
      required ''start_date'' AnnDateStrDatetime,
      required ''end_date'' AnnDateStrDatetime,
      required ''trip_place'' AnnStr,
      required ''trip_code'' AnnStr,
      required ''trip_reason'' AnnStr,
      required ''main_order_start_date'' AnnDateStrDatetime,
      required ''was_done_previously'' AnnBool,
      required ''screenshot_path'' AnnStr,
      optional ''employee_status'' AnnOptStr,
      optional ''branch_num'' AnnOptStr,
      optional ''tab_num'' AnnOptStr]"

definition BusinessTripOrder_post_init ::
  "(string \<Rightarrow> string \<Rightarrow> py_exc + datetime) \<Rightarrow> 'f obj \<Rightarrow> py_exc + 'f obj" where
  "BusinessTripOrder_post_init strptime =
     run_steps
       [convert_date strptime ''start_date'' ''%d.%m.%y'',
        convert_date strptime ''end_date'' ''%d.%m.%y'',
        convert_date strptime ''main_order_start_date'' ''%d.%m.%y'']"

definition VacationOrder_fields :: "field list" where
  "VacationOrder_fields =
     [required ''employee_fullname'' AnnStr,
      required ''employee_names'' AnnNames,
      required ''order_type'' AnnStr,
      required ''start_date'' AnnDateStrDatetime,
      required ''end_date'' AnnDateStrDatetime,
      required ''order_number'' AnnStr,
      required ''was_done_previously'' AnnBool,
      required ''screenshot_path'' AnnStr,
      optional ''employee_status'' AnnOptStr,
      optional ''branch_num'' AnnOptStr,
      optional ''tab_num'' AnnOptStr]"

definition VacationOrder_post_init ::
  "(string \<Rightarrow> string \<Rightarrow> py_exc + datetime) \<Rightarrow> 'f obj \<Rightarrow> py_exc + 'f obj" where
  "VacationOrder_post_init strptime =
     run_steps
       [convert_date strptime ''start_date'' ''%d.%m.%y'',
        convert_date strptime ''end_date'' ''%d.%m.%y'']"

definition VacationWithdrawOrder_fields :: "field list" where
  "VacationWithdrawOrder_fields =
     [required ''employee_fullname'' AnnStr,
      required ''employee_names'' AnnNames,
      required ''order_number'' AnnStr,
      required ''withdraw_date'' AnnDateStrDatetime,
      required ''was_done_previously'' AnnBool,
      required ''screenshot_path'' AnnStr,
      optional ''employee_status'' AnnOptStr,
      optional ''branch_num'' AnnOptStr,
      optional ''tab_num'' AnnOptStr]"

definition VacationWithdrawOrder_post_init ::
  "(string \<Rightarrow> string \<Rightarrow> py_exc + datetime) \<Rightarrow> 'f obj \<Rightarrow> py_exc + 'f obj" where
  "VacationWithdrawOrder_post_init strptime =
     run_steps [convert_date strptime ''withdraw_date'' ''%d.%m.%y'']"

definition FiringOrder_fields :: "field list" where
  "FiringOrder_fields =
     [required ''employee_fullname'' AnnStr,
      required ''employee_names'' AnnNames,
      required ''order_number'' AnnStr,
      required ''compensation'' AnnStr,
      required ''firing_date'' AnnDateStrDatetime,
      required ''main_article'' AnnStr,
      required ''extra_article'' AnnStr,
      required ''was_done_previously'' AnnBool,
      required ''screenshot_path'' AnnStr,
      optional ''employee_status'' AnnOptStr,
      optional ''branch_num'' AnnOptStr,
      optional ''tab_num'' AnnOptStr]"

definition FiringOrder_post_init ::
  "(string \<Rightarrow> string \<Rightarrow> py_exc + datetime) \<Rightarrow> 'f obj \<Rightarrow> py_exc + 'f obj" where
  "FiringOrder_post_init strptime =
     run_steps [convert_date strptime ''firing_date'' ''%d.%m.%y'']"

definition MentorshipOrder_fields :: "field list" where
  "MentorshipOrder_fields =
     [required ''mentee_fullname'' AnnStr,
      required ''employee_fullname'' AnnStr,
      required ''employee_names'' AnnNames,
      required ''start_date'' AnnDateStrDatetime,
      required ''end_date'' AnnDateStrDatetime,
      required ''order_number'' AnnStr,
      required ''was_done_previously'' AnnBool,
      required ''screenshot_path'' AnnStr,
      optional ''employee_status'' AnnOptStr,
      optional ''branch_num'' AnnOptStr,
      optional ''tab_num'' AnnOptStr]"

definition MentorshipOrder_post_init ::
  "(string \<Rightarrow> string \<Rightarrow> py_exc + datetime) \<Rightarrow> 'f obj \<Rightarrow> py_exc + 'f obj" where
  "MentorshipOrder_post_init strptime =
     run_steps
       [convert_date strptime ''start_date'' ''%d.%m.%y'',
        convert_date strptime ''end_date'' ''%d.%m.%y'']"

definition VNDOrder_fields :: "field list" where
  "VNDOrder_fields =
     [required ''employee_fullname'' AnnStr,
      required ''employee_names'' AnnNames,
      required ''order_number'' AnnStr,
      required ''doplata'' AnnOptStr,
      required ''start_date'' AnnDate,
      required ''end_date'' AnnDate,
      required ''was_done_previously'' AnnBool,
      required ''screenshot_path'' AnnStr,
      optional ''employee_status'' AnnOptStr,
      optional ''branch_num'' AnnOptStr,
      optional ''tab_num'' AnnOptStr]"

definition VNDOrder_post_init ::
  "(string \<Rightarrow> string \<Rightarrow> py_exc + datetime) \<Rightarrow> 'f obj \<Rightarrow> py_exc + 'f obj" where
  "VNDOrder_post_init strptime =
     run_steps
       [convert_date strptime ''start_date'' ''%d.%m.%y'',
        convert_date strptime ''end_date'' ''%d.%m.%y'']"

definition TripAddPayOrder_fields :: "field list" where
  "TripAddPayOrder_fields =
     [required ''substitutee_fullname'' AnnStr,
      required ''employee_fullname'' AnnStr,
      required ''employee_names'' AnnNames,
      required ''order_number'' AnnStr,
      required ''doplata'' AnnStr,
      required ''start_date'' AnnDate,
      required ''end_date'' AnnDate,
      required ''was_done_previously'' AnnBool,
      required ''screenshot_path'' AnnStr,
      optional ''employee_status'' AnnOptStr,
      optional ''branch_num'' AnnOptStr,
      optional ''tab_num'' AnnOptStr]"

definition TripAddPayOrder_post_init ::
  "(string \<Rightarrow> string \<Rightarrow> py_exc + datetime) \<Rightarrow> 'f obj \<Rightarrow> py_exc + 'f obj" where
  "TripAddPayOrder_post_init strptime =
     run_steps
       [convert_date strptime ''start_date'' ''%d.%m.%y'',
        convert_date strptime ''end_date'' ''%d.%m.%y'']"

definition VacationAddPayOrder_fields :: "field list" where
  "VacationAddPayOrder_fields =
     [required ''substitutee_fullname'' AnnStr,
      required ''employee_fullname'' AnnStr,
      required ''employee_names'' AnnNames,
      required ''order_number'' AnnStr,
      required ''doplata'' AnnStr,
      required ''start_date'' AnnDate,
      required ''end_date'' AnnDate,
      required ''was_done_previously'' AnnBool,
      required ''screenshot_path'' AnnStr,
      optional ''employee_status'' AnnOptStr,
      optional ''branch_num'' AnnOptStr,
      optional ''tab_num'' AnnOptStr]"

definition VacationAddPayOrder_post_init ::
  "(string \<Rightarrow> string \<Rightarrow> py_exc + datetime) \<Rightarrow> 'f obj \<Rightarrow> py_exc + 'f obj" where
  "VacationAddPayOrder_post_init strptime =
     run_steps
       [convert_date strptime ''start_date'' ''%d.%m.%y'',
        convert_date strptime ''end_date'' ''%d.%m.%y'']"

text \<open>The eight classes of the union \<open>Order\<close>: the fields and \<open>__post_init__\<close> of each.\<close>

definition order_classes ::
  "(string \<Rightarrow> string \<Rightarrow> py_exc + datetime) \<Rightarrow> (field list \<times> ('f obj \<Rightarrow> py_exc + 'f obj)) list"
where
  "order_classes strptime =
     [(BusinessTripOrder_fields, BusinessTripOrder_post_init strptime),
      (VacationOrder_fields, VacationOrder_post_init strptime),
      (VacationWithdrawOrder_fields, VacationWithdrawOrder_post_init strptime),
      (FiringOrder_fields, FiringOrder_post_init strptime),
      (MentorshipOrder_fields, MentorshipOrder_post_init strptime),
      (VNDOrder_fields, VNDOrder_post_init strptime),
      (TripAddPayOrder_fields, TripAddPayOrder_post_init strptime),
      (VacationAddPayOrder_fields, VacationAddPayOrder_post_init strptime)]"

text \<open>The date fields of a class: the names annotated with \<open>Date\<close>, alone or in a union.\<close>

definition date_fields :: "field list \<Rightarrow> string list" where
  "date_fields flds =
     map name (filter (\<lambda>f. ann f = AnnDateStrDatetime \<or> ann f = AnnDate) flds)"

text \<open>
  The normalization of a value as the specification words it: a \<open>Date\<close> as it is, the \<open>Date\<close> of
  a datetime, the \<open>Date\<close> of the datetime a string parses to, and nothing for a value
  of another type or a string that does not parse.
\<close>

definition normalized ::
  "(string \<Rightarrow> string \<Rightarrow> py_exc + datetime) \<Rightarrow> string \<Rightarrow> 'f py_value \<Rightarrow> 'f py_value option" where
  "normalized strptime date_format v =
     (case v of
        PyDate d \<Rightarrow> Some (PyDate d)
      | PyDatetime t \<Rightarrow>
          Some (PyDate \<lparr>dt = t, long = strftime_dmY t, short = strftime_dmy t\<rparr>)
      | PyStr s \<Rightarrow>
          (case strptime s date_format of
             Inl e \<Rightarrow> None
           | Inr t \<Rightarrow> Some (PyDate \<lparr>dt = t, long = strftime_dmY t, short = strftime_dmy t\<rparr>))
      | _ \<Rightarrow> None)"

section \<open>\<open>src/notification.py\<close>\<close>

subsection \<open>\<open>handle_error\<close>\<close>

text \<open>
  The host the wrapper runs on: what \<open>logging.exception\<close> has logged, the calls of
  \<open>bot.send_message\<close> made so far (bot, message, picture), and the rest of the world,
  which the wrapped function, the screen grabber and the network read and change.
\<close>

record ('bot, 'img, 'u) host =
  logged :: "py_exc list"
  sent :: "('bot \<times> string \<times> 'img) list"
  outside :: 'u

text \<open>
  The surroundings, as parameters: \<open>traceback.format_exc()\<close> for the exception being
  handled, \<open>os.getenv("DEVELOPER")\<close>, \<open>ImageGrab.grab()\<close>, and \<open>bot.send_message\<close> with
  its answer or the exception it lets through.
\<close>

record ('bot, 'img, 'u) surroundings =
  format_exc :: "py_exc \<Rightarrow> string"
  developer :: "string option"
  grab :: "'u \<Rightarrow> (py_exc + 'img) \<times> 'u"
  send_message :: "'bot \<Rightarrow> string \<Rightarrow> 'img \<Rightarrow> 'u \<Rightarrow> (py_exc + bool) \<times> 'u"

text \<open>
  The keyword arguments of a call, as far as the wrapper reads them: a keyword holds a
  bot or \<open>None\<close>. \<open>kwargs.get("bot")\<close> is \<open>None\<close> for a call without the keyword.
\<close>

type_synonym 'bot kwargs = "string \<rightharpoonup> 'bot option"

definition kwargs_get :: "'bot kwargs \<Rightarrow> string \<Rightarrow> 'bot option" where
  "kwargs_get kwargs key = (case kwargs key of None \<Rightarrow> None | Some v \<Rightarrow> v)"

text \<open>
  \<^verbatim>\<open>
  def handle_error(func: Callable[..., any]) -> Callable[..., any]:
      @wraps(func)
      def wrapper(*args, **kwargs) -> any:
          bot: TelegramAPI | None = kwargs.get("bot")

          try:
              return func(*args, **kwargs)
          except KeyboardInterrupt as error:
              raise error
          except (Exception, BaseException) as error:
              logging.exception(error)
              error_traceback = traceback.format_exc()

              developer = os.getenv("DEVELOPER")
              if developer:
                  error_traceback = f"(at){developer} {error_traceback}"

              if bot:
                  bot.send_message(message=error_traceback, media=ImageGrab.grab())
              raise error

      return wrapper
  \<close>
  (\<open>(at)\<close> stands for the at sign.) \<open>handle_error sur func\<close> is the wrapper. The
  picture is grabbed before \<open>send_message\<close> is called, as an argument of the call.
\<close>

definition error_text :: "('bot, 'img, 'u) surroundings \<Rightarrow> py_exc \<Rightarrow> string" where
  "error_text sur error =
     (case developer sur of
        None \<Rightarrow> format_exc sur error
      | Some d \<Rightarrow>
          if d \<noteq> [] then ''@'' @ d @ '' '' @ format_exc sur error else format_exc sur error)"

definition handle_error ::
  "('bot, 'img, 'u) surroundings \<Rightarrow>
   ('a \<Rightarrow> 'bot kwargs \<Rightarrow> 'u \<Rightarrow> (py_exc + 'r) \<times> 'u) \<Rightarrow>
   'a \<Rightarrow> 'bot kwargs \<Rightarrow> ('bot, 'img, 'u) host \<Rightarrow> (py_exc + 'r) \<times> ('bot, 'img, 'u) host" where
  "handle_error sur func args kwargs h =
     (let bot = kwargs_get kwargs ''bot''
      in case func args kwargs (outside h) of
           (Inr result, u1) \<Rightarrow> (Inr result, h\<lparr>outside := u1\<rparr>)
         | (Inl error, u1) \<Rightarrow>
             if isinstance error KeyboardInterrupt then (Inl error, h\<lparr>outside := u1\<rparr>)
             else
               (let h1 = h\<lparr>logged := logged h @ [error], outside := u1\<rparr>;
                    error_traceback = error_text sur error
                in case bot of
                     None \<Rightarrow> (Inl error, h1)
                   | Some b \<Rightarrow>
                       (case grab sur u1 of
                          (Inl e, u2) \<Rightarrow> (Inl e, h1\<lparr>outside := u2\<rparr>)
                        | (Inr media, u2) \<Rightarrow>
                            (case send_message sur b error_traceback media u2 of
                               (Inl e, u3) \<Rightarrow>
                                 (Inl e, h1\<lparr>sent := sent h1 @ [(b, error_traceback, media)],
                                            outside := u3\<rparr>)
                             | (Inr _, u3) \<Rightarrow>
                                 (Inl error, h1\<lparr>sent := sent h1 @ [(b, error_traceback, media)],
                                                outside := u3\<rparr>)))))"

subsection \<open>Files and messages\<close>

text \<open>
  A file holds bytes or is the zip archive of a folder. The file system is its files and
  its folders by path; a relative path is relative to the working directory.
\<close>

datatype content = Bytes string | Zip_of path

record filesystem =
  files :: "path \<rightharpoonup> content"
  folders :: "path set"

text \<open>
  The body is the subject followed by one of two sentences with the short forms of the two
  dates of the period: orders for the period, or no orders for the period. A part of the
  multipart message is an attachment (file name and content) or the body as HTML text.
\<close>

datatype body = Orders_body string string string | No_orders_body string string string

datatype part = Attachment string content | Html_text body

record message =
  header_from :: string
  header_to :: string
  header_date :: string
  header_subject :: string
  parts :: "part list"

text \<open>\<open>Path.name\<close>: the last component, empty for the empty path.\<close>

definition path_name :: "path \<Rightarrow> string" where
  "path_name p = (case rev p of [] \<Rightarrow> [] | n # _ \<Rightarrow> n)"

text \<open>
  \<^verbatim>\<open>
  def attach_file(msg: MIMEMultipart, file_path: Path, file_name: str | None = None) -> None:
      if not file_name:
          file_name = file_path.name
      with open(file_path, "rb") as f:
          file_part = MIMEApplication(f.read())
      file_part.add_header("Content-Disposition", "attachment", filename=file_name)
      msg.attach(file_part)
  \<close>
\<close>

definition attach_file ::
  "message \<Rightarrow> path \<Rightarrow> string option \<Rightarrow> filesystem \<Rightarrow> py_exc + message" where
  "attach_file msg file_path file_name fs =
     (let shown = (case file_name of
                     None \<Rightarrow> path_name file_path
                   | Some n \<Rightarrow> if n = [] then path_name file_path else n)
      in case files fs file_path of
           None \<Rightarrow> Inl (Raised OSError ''No such file or directory'')
         | Some data \<Rightarrow> Inr (msg\<lparr>parts := parts msg @ [Attachment shown data]\<rparr>))"

text \<open>
  \<open>shutil.make_archive(base_name, "zip", root_dir)\<close> writes \<open>base_name.zip\<close> in the
  working directory and returns its path; \<open>shutil.move\<close> moves a file.
\<close>

definition make_archive :: "string \<Rightarrow> path \<Rightarrow> filesystem \<Rightarrow> py_exc + path \<times> filesystem" where
  "make_archive base_name root_dir fs =
     (if root_dir \<notin> folders fs then Inl (Raised OSError ''No such file or directory'')
      else Inr ([base_name @ ''.zip''],
                fs\<lparr>files := (files fs)([base_name @ ''.zip''] \<mapsto> Zip_of root_dir)\<rparr>))"

definition move :: "path \<Rightarrow> path \<Rightarrow> filesystem \<Rightarrow> py_exc + filesystem" where
  "move src dst fs =
     (case files fs src of
        None \<Rightarrow> Inl (Raised OSError ''No such file or directory'')
      | Some data \<Rightarrow> Inr (fs\<lparr>files := ((files fs)(src := None))(dst \<mapsto> data)\<rparr>))"

text \<open>\<open>list(filter(bool, recipients.split(";")))\<close>: the pieces between semicolons that are not empty.\<close>

fun split_on :: "char \<Rightarrow> string \<Rightarrow> string list" where
  "split_on sep [] = [[]]"
| "split_on sep (c # cs) =
     (if c = sep then [] # split_on sep cs
      else (case split_on sep cs of
              [] \<Rightarrow> [[c]]
            | piece # pieces \<Rightarrow> (c # piece) # pieces))"

definition recipients_lst :: "string \<Rightarrow> string list" where
  "recipients_lst rcpts = filter (\<lambda>r. r \<noteq> []) (split_on CHR '';'' rcpts)"

subsection \<open>\<open>send_mail\<close>\<close>

text \<open>
  The mail library, as parameters: the text of \<open>email.utils.formatdate\<close>; the exception
  that \<open>smtplib.SMTP(server, 25)\<close> raises, if any; \<open>smtp.sendmail\<close>, which returns the
  refused recipients with their errors or raises; and the server's reply to \<open>QUIT\<close> when
  the \<open>with\<close> block is left: a code, or nothing when the server has disconnected.
  \<open>SMTP.__exit__\<close> raises \<open>SMTPResponseException\<close> for a code other than 221 and
  swallows a disconnection.
\<close>

record smtp_service =
  formatdate :: string
  smtp_connect :: "string \<Rightarrow> py_exc option"
  sendmail :: "string \<Rightarrow> string list \<Rightarrow> message \<Rightarrow> py_exc + (string \<times> string) list"
  quit_reply :: "nat option"

definition smtp_exit :: "smtp_service \<Rightarrow> py_exc option" where
  "smtp_exit svc =
     (case quit_reply svc of
        None \<Rightarrow> None
      | Some code \<Rightarrow>
          if code \<noteq> 221 then Some (Raised SMTPResponseException ''QUIT refused'') else None)"

text \<open>
  \<^verbatim>\<open>
  def send_mail(job: Job, is_empty: bool) -> bool:
      mail_info = job.mail_info
      t_range = job.t_range
      job_name = job.job_type.name

      recipients_lst: list[str] = list(filter(bool, mail_info.recipients.split(";")))

      msg = MIMEMultipart()
      msg["From"] = mail_info.sender
      msg["To"] = mail_info.recipients
      msg["Date"] = email.utils.formatdate(localtime=True)
      msg["Subject"] = mail_info.subject

      body = mail_info.subject

      if is_empty:
          body += f"\n\n<no orders for the period> {t_range.start.short} ... {t_range.end.short}."
      else:
          body += f"\n\n<orders for the period> {t_range.start.short} ... {t_range.end.short}."

          attach_file(msg, mail_info.report_path)

          archive_name = f"screenshots_{t_range.end.short}"
          original_zip_path = shutil.make_archive(
              base_name=archive_name, format="zip", root_dir=mail_info.screenshot_folder
          )
          archive_name = f"{archive_name}.zip"
          screenshot_archive_path = mail_info.screenshot_folder / archive_name
          shutil.move(original_zip_path, screenshot_archive_path)

          attach_file(msg, screenshot_archive_path, archive_name)

      logging.info(f"{body=}")
      msg.attach(MIMEText(body, "html", "utf-8"))

      try:
          with smtplib.SMTP(mail_info.server, 25) as smtp:
              response = smtp.sendmail(mail_info.sender, recipients_lst, msg.as_string())
              if response:
                  logging.error(...)
                  for recipient, error in response.items():
                      logging.error(f"{recipient}: {error}")
                  return False
              else:
                  logging.info(f"{job_name} - Email sent successfully.")
                  return True
      except smtplib.SMTPException as e:
          logging.error(f"{job_name} - Failed to send email: {e}")
          return False
  \<close>
  (The two sentences of the body are abbreviated.) \<open>compose\<close> is the routine up to the
  \<open>try\<close>: the message it builds and the file system it leaves. \<open>smtp_session\<close> is the
  \<open>with\<close> block: what it returns or raises once \<open>__exit__\<close> has run.
\<close>

definition compose ::
  "smtp_service \<Rightarrow> Job \<Rightarrow> bool \<Rightarrow> filesystem \<Rightarrow> (py_exc + message) \<times> filesystem" where
  "compose svc job is_empty fs =
     (let mail = mail_info job;
          period = t_range job;
          msg = \<lparr>header_from = sender mail, header_to = recipients mail,
                 header_date = formatdate svc, header_subject = subject mail, parts = []\<rparr>
      in if is_empty then
           (Inr (msg\<lparr>parts := parts msg @
                   [Html_text (No_orders_body (subject mail) (short (t_start period))
                      (short (t_end period)))]\<rparr>), fs)
         else
           (case attach_file msg (report_path mail) None fs of
              Inl e \<Rightarrow> (Inl e, fs)
            | Inr msg1 \<Rightarrow>
                (let archive_name = ''screenshots_'' @ short (t_end period)
                 in case make_archive archive_name (screenshot_folder mail) fs of
                      Inl e \<Rightarrow> (Inl e, fs)
                    | Inr (original_zip_path, fs1) \<Rightarrow>
                        (let zip_name = archive_name @ ''.zip'';
                             screenshot_archive_path = screenshot_folder mail @ [zip_name]
                         in case move original_zip_path screenshot_archive_path fs1 of
                              Inl e \<Rightarrow> (Inl e, fs1)
                            | Inr fs2 \<Rightarrow>
                                (case attach_file msg1 screenshot_archive_path (Some zip_name) fs2 of
                                   Inl e \<Rightarrow> (Inl e, fs2)
                                 | Inr msg2 \<Rightarrow>
                                     (Inr (msg2\<lparr>parts := parts msg2 @
                                             [Html_text (Orders_body (subject mail)
                                                (short (t_start period))
                                                (short (t_end period)))]\<rparr>), fs2))))))"

definition smtp_session :: "smtp_service \<Rightarrow> Mail \<Rightarrow> message \<Rightarrow> py_exc + bool" where
  "smtp_session svc mail msg =
     (case smtp_connect svc (server mail) of
        Some e \<Rightarrow> Inl e
      | None \<Rightarrow>
          (let inside = (case sendmail svc (sender mail) (recipients_lst (recipients mail)) msg of
                           Inl e \<Rightarrow> Inl e
                         | Inr response \<Rightarrow> if response \<noteq> [] then Inr False else Inr True)
           in case smtp_exit svc of Some e \<Rightarrow> Inl e | None \<Rightarrow> inside))"

definition send_mail ::
  "smtp_service \<Rightarrow> Job \<Rightarrow> bool \<Rightarrow> filesystem \<Rightarrow> (py_exc + bool) \<times> filesystem" where
  "send_mail svc job is_empty fs =
     (case compose svc job is_empty fs of
        (Inl e, fs') \<Rightarrow> (Inl e, fs')
      | (Inr msg, fs') \<Rightarrow>
          (case smtp_session svc (mail_info job) msg of
             Inl e \<Rightarrow> if isinstance e SMTPException then (Inr False, fs') else (Inl e, fs')
           | Inr accepted \<Rightarrow> (Inr accepted, fs')))"

section \<open>\<open>src/utils/automation.py\<close>\<close>

subsection \<open>\<open>text_to_float\<close>\<close>

text \<open>
  \<^verbatim>\<open>txt.replace(",", ".")\<close>: both arguments are one character long, so the replacement
  is character by character.
\<close>

definition replace_char :: "char \<Rightarrow> char \<Rightarrow> string \<Rightarrow> string" where
  "replace_char old new s = map (\<lambda>c. if c = old then new else c) s"

text \<open>
  \<^verbatim>\<open>
  def text_to_float(txt: str, default: Optional[float] = None) -> float:
      try:
          res = float(txt.replace(",", "."))
          return res
      except ValueError as err:
          if isinstance(default, float):
              return default
          raise err
  \<close>
  \<open>float_of_str\<close> is Python's \<open>float\<close> on a string: the number, or the exception it
  raises.
\<close>

definition text_to_float ::
  "(string \<Rightarrow> py_exc + 'f) \<Rightarrow> string \<Rightarrow> 'f py_value \<Rightarrow> py_exc + 'f" where
  "text_to_float float_of_str txt dflt =
     (case float_of_str (replace_char CHR '','' CHR ''.'' txt) of
        Inr res \<Rightarrow> Inr res
      | Inl err \<Rightarrow>
          if isinstance err ValueError then
            (case dflt of PyFloat d \<Rightarrow> Inr d | _ \<Rightarrow> Inl err)
          else Inl err)"

subsection \<open>\<open>wait_for\<close>\<close>

text \<open>
  \<^verbatim>\<open>
  def wait_for(condition: Callable[[], bool], timeout: float, interval: float = 0.1) -> bool:
      start = time()
      while not condition():
          if time() - start > timeout:
              return False
          sleep(interval)
      return True
  \<close>
  The world holds the wall clock that \<open>time()\<close> reads, in seconds, and whatever the
  condition observes. Seconds are exact rationals here. Calling the condition reads and
  may change the world (it may take time), and it answers or raises; \<open>sleep\<close> moves
  the clock on by the interval. The loop has no bound of its own, so \<open>wait_loop\<close> is a
  partial function: \<open>None\<close> is a run that never returns.
\<close>

record 's world =
  clock :: rat
  env :: 's

definition sleep :: "rat \<Rightarrow> 's world \<Rightarrow> 's world" where
  "sleep secs w = w\<lparr>clock := clock w + secs\<rparr>"

partial_function (option) wait_loop ::
  "('s world \<Rightarrow> (py_exc + bool) \<times> 's world) \<Rightarrow> rat \<Rightarrow> rat \<Rightarrow> rat \<Rightarrow> 's world \<Rightarrow>
   ((py_exc + bool) \<times> 's world) option"
where
  "wait_loop condition start timeout interval w =
     (case condition w of
        (Inl e, w1) \<Rightarrow> Some (Inl e, w1)
      | (Inr c, w1) \<Rightarrow>
          if c then Some (Inr True, w1)
          else if clock w1 - start > timeout then Some (Inr False, w1)
          else wait_loop condition start timeout interval (sleep interval w1))"

definition wait_for ::
  "('s world \<Rightarrow> (py_exc + bool) \<times> 's world) \<Rightarrow> rat \<Rightarrow> rat \<Rightarrow> 's world \<Rightarrow>
   ((py_exc + bool) \<times> 's world) option"
where
  "wait_for condition timeout interval w = wait_loop condition (clock w) timeout interval w"

text \<open>
  The world just before the \<open>k\<close>-th call of the condition (counting from 0) when every
  earlier call was followed by a sleep, and the outcome of that call.
\<close>

fun before_poll ::
  "('s world \<Rightarrow> (py_exc + bool) \<times> 's world) \<Rightarrow> rat \<Rightarrow> 's world \<Rightarrow> nat \<Rightarrow> 's world" where
  "before_poll condition interval w 0 = w"
| "before_poll condition interval w (Suc k) =
     sleep interval (snd (condition (before_poll condition interval w k)))"

definition poll ::
  "('s world \<Rightarrow> (py_exc + bool) \<times> 's world) \<Rightarrow> rat \<Rightarrow> 's world \<Rightarrow> nat \<Rightarrow>
   (py_exc + bool) \<times> 's world" where
  "poll condition interval w k = condition (before_poll condition interval w k)"

subsection \<open>The desktop session\<close>

text \<open>
  \<open>find_project\<close> drives the window of the application. The controls it looks up with
  \<open>child_win\<close> on the top window are: the button that opens the query console, the query
  text box (\<open>ctrl="Document"\<close>), the button that runs the query, the second button titled
  \<open>Delete\<close>, the second list (\<open>ctrl="List", idx=1\<close>) and the \<open>Close\<close> button of pane 18.
\<close>

datatype element =
    Console_button
  | Query_document
  | Execute_button
  | Delete_button
  | Result_list
  | Close_button

text \<open>
  What the routine asks of the toolkit: \<open>click_input\<close>, \<open>double_click_input\<close> on a row,
  \<open>send_keys\<close>, \<open>type_keys\<close> on a control, \<open>pyperclip.copy\<close> of the query prepared for a
  contragent, \<open>wrapper_object\<close>, and the \<open>set_focus\<close> and \<open>wait\<close> of the helper \<open>a\<close>.
\<close>

datatype ('c, 'row) action =
    Click element
  | Double_click_row 'row
  | Send_keys string
  | Type_keys element string
  | Copy_query "'c list"
  | Wrapper_object element
  | Set_focus
  | Wait_active_visible

text \<open>
  What \<open>print\<close> writes: the line \<open>contract.contract_id=... not found\<close>, and the line of
  \<open>find_row\<close> with the number of rows, the text and the score. A text is a list of
  characters of type \<open>'c\<close>.
\<close>

datatype 'c printed = Not_found "'c list" | Row_found nat "'c list" rat

record ('c, 'u) desktop =
  printed :: "'c printed list"
  gui :: 'u

type_synonym ('c, 'u) session = "('c, 'u) desktop world"

text \<open>A call that reads and changes the session and returns a value or raises.\<close>

type_synonym ('a, 'c, 'u) prog = "('c, 'u) session \<Rightarrow> (py_exc + 'a) \<times> ('c, 'u) session"

definition ret :: "'a \<Rightarrow> ('a, 'c, 'u) prog" where
  "ret x w = (Inr x, w)"

definition and_then :: "('a, 'c, 'u) prog \<Rightarrow> ('a \<Rightarrow> ('b, 'c, 'u) prog) \<Rightarrow> ('b, 'c, 'u) prog" where
  "and_then m f w = (case m w of (Inl e, w') \<Rightarrow> (Inl e, w') | (Inr x, w') \<Rightarrow> f x w')"

definition print :: "'c printed \<Rightarrow> (unit, 'c, 'u) prog" where
  "print line w = (Inr (), w\<lparr>env := (env w)\<lparr>printed := printed (env w) @ [line]\<rparr>\<rparr>)"

text \<open>
  The toolkit and the libraries, as parameters: every call may take time, change the
  screen and raise. \<open>ratio\<close> is \<open>SequenceMatcher(None, a, b).ratio()\<close>, twice the number
  of matched characters over the total length, as an exact fraction (for texts of any
  length that fits a screen, the fraction is at least 4/5 exactly when the float is at
  least 0.8); \<open>isspace\<close> says which characters \<open>str.strip\<close> removes.
\<close>

record ('c, 'row, 'u) toolkit =
  perform :: "('c, 'row) action \<Rightarrow> (unit, 'c, 'u) prog"
  is_active :: "(bool, 'c, 'u) prog"
  is_enabled :: "element \<Rightarrow> (bool, 'c, 'u) prog"
  element_exists :: "element \<Rightarrow> (bool, 'c, 'u) prog"
  children :: "element \<Rightarrow> ('row list, 'c, 'u) prog"
  window_text :: "'row \<Rightarrow> 'c list"
  isspace :: "'c \<Rightarrow> bool"
  ratio :: "'c list \<Rightarrow> 'c list \<Rightarrow> rat"

text \<open>
  \<^verbatim>\<open>
  def a(main_win: UiaWindow, action: Callable[[], None]) -> None:
      if not main_win.is_active():
          main_win.set_focus()
          main_win.wait(wait_for="active visible")

      action()
  \<close>
\<close>

definition a_act :: "('c, 'row, 'u) toolkit \<Rightarrow> ('c, 'row) action \<Rightarrow> (unit, 'c, 'u) prog" where
  "a_act tk action =
     and_then (is_active tk) (\<lambda>active.
       if \<not> active then
         and_then (perform tk Set_focus) (\<lambda>_.
         and_then (perform tk Wait_active_visible) (\<lambda>_.
         perform tk action))
       else perform tk action)"

section \<open>\<open>src/utils/app.py\<close>\<close>

text \<open>
  What the retry loops do that a caller can observe: an attempt (with the value of
  \<open>retries\<close> it was made at), a sleep of so many seconds, a start of the application,
  a logged exception, a kill of the application's processes.
\<close>

datatype event = Attempt int | Slept rat | Started | Logged py_exc | Killed

subsection \<open>\<open>AppUtils.set_focus\<close>\<close>

text \<open>
  An \<open>AppUtils\<close> object: whether \<open>self.app\<close> is set, the name \<open>self.app.backend.name\<close>,
  what has happened so far, and the screen with its clock.
\<close>

record 'u AppUtils =
  has_app :: bool
  backend_name :: string
  events :: "event list"
  screen :: "'u world"







subsection \<open>\<open>App.open_app\<close>\<close>








section \<open>\<open>src/utils/db_manager.py\<close>\<close>

subsection \<open>The schema of a database file\<close>

text \<open>
  A table is its columns, in order, and its foreign keys (column, referenced table,
  referenced column). A column has a declared type and constraints;
  \<open>Default_local_now\<close> is \<open>DEFAULT (datetime('now','localtime'))\<close>.
\<close>

datatype sql_type = TEXT | INTEGER | REAL | BLOB

datatype col_constraint = Not_null | Primary_key | Unique_key | Default_local_now

record column_def =
  col_name :: string
  col_type :: sql_type
  col_constraints :: "col_constraint list"

definition col :: "string \<Rightarrow> sql_type \<Rightarrow> col_constraint list \<Rightarrow> column_def" where
  "col n t cs = \<lparr>col_name = n, col_type = t, col_constraints = cs\<rparr>"

record table_def =
  columns :: "column_def list"
  foreign_keys :: "(string \<times> string \<times> string) list"

text \<open>
  The objects that share the name space of tables in a database file. The file's state:
  whether it can be opened, its pragmas, and its objects by name.
\<close>

datatype schema_object = Table table_def | View | Index

record database =
  available :: bool
  pragmas :: "string \<rightharpoonup> string"
  objects :: "string \<rightharpoonup> schema_object"

text \<open>
  The statements \<open>prepare_tables\<close> sends. \<open>CREATE TABLE IF NOT EXISTS\<close> has no effect
  when a table or a view of that name exists, and fails when an index of that name
  exists.
\<close>

datatype statement =
    Pragma string string
  | Create_table_if_not_exists string table_def

text \<open>
  \<^verbatim>\<open>
  def execute(self, query: str, params: Optional[SQLParams] = None) -> Sequence[SQLParam]:
      try:
          with self.connect() as cursor:
              cursor.execute(query, params or ())
              return cursor.fetchall()
      except sqlite3.IntegrityError as err:
          query = re.sub(r"\s+", " ", query).strip()
          logging.error(f"{query!r} with {params=}")
          raise err
      except sqlite3.Error as err:
          logging.error(f"Database error: {err} - {query!r}")
          raise err
  \<close>
  Both handlers raise the error again. The errors of \<open>sqlite3\<close> are written as \<open>OSError\<close>
  here.
\<close>

definition execute :: "statement \<Rightarrow> database \<Rightarrow> py_exc + database" where
  "execute stmt db =
     (if \<not> available db then Inl (Raised OSError ''unable to open database file'')
      else
        (case stmt of
           Pragma key val \<Rightarrow> Inr (db\<lparr>pragmas := (pragmas db)(key \<mapsto> val)\<rparr>)
         | Create_table_if_not_exists tname t \<Rightarrow>
             (case objects db tname of
                None \<Rightarrow> Inr (db\<lparr>objects := (objects db)(tname \<mapsto> Table t)\<rparr>)
              | Some (Table old) \<Rightarrow> Inr db
              | Some View \<Rightarrow> Inr db
              | Some Index \<Rightarrow>
                  Inl (Raised OSError (''there is already an index named '' @ tname)))))"

subsection \<open>\<open>prepare_tables\<close>\<close>

definition banks_table :: table_def where
  "banks_table =
     \<lparr>columns =
        [col ''bank_id'' TEXT [Not_null, Primary_key],
         col ''bank'' TEXT [],
         col ''year_count'' INTEGER []],
      foreign_keys = []\<rparr>"

definition contracts_table :: table_def where
  "contracts_table =
     \<lparr>columns =
        [col ''id'' TEXT [Not_null, Unique_key, Primary_key],
         col ''modified'' TEXT [Default_local_now],
         col ''ds_id'' TEXT [Not_null],
         col ''ds_date'' TEXT [Not_null],
         col ''file_name'' TEXT [],
         col ''contragent'' TEXT [Not_null],
         col ''sed_number'' TEXT [],
         col ''protocol_id'' TEXT [],
         col ''protocol_date'' TEXT [],
         col ''start_date'' TEXT [],
         col ''end_date'' TEXT [],
         col ''loan_amount'' REAL [],
         col ''subsid_amount'' REAL [],
         col ''investment_amount'' REAL [],
         col ''pos_amount'' REAL [],
         col ''vypiska_date'' TEXT [],
         col ''iban'' TEXT [],
         col ''df'' BLOB [],
         col ''credit_purpose'' TEXT [],
         col ''repayment_procedure'' TEXT [],
         col ''dbz_id'' TEXT [],
         col ''dbz_date'' TEXT [],
         col ''request_number'' INTEGER [],
         col ''project_id'' TEXT [],
         col ''project'' TEXT [],
         col ''customer'' TEXT [],
         col ''customer_id'' TEXT [],
         col ''bank_id'' TEXT []],
      foreign_keys = [(''bank_id'', ''banks'', ''bank_id'')]\<rparr>"

definition interest_rates_table :: table_def where
  "interest_rates_table =
     \<lparr>columns =
        [col ''id'' TEXT [Primary_key],
         col ''modified'' TEXT [Default_local_now],
         col ''subsid_term'' INTEGER [],
         col ''nominal_rate'' REAL [],
         col ''rate_one_two_three_year'' REAL [],
         col ''rate_four_year'' REAL [],
         col ''rate_five_year'' REAL [],
         col ''rate_six_seven_year'' REAL [],
         col ''rate_fee_one_two_three_year'' REAL [],
         col ''rate_fee_four_year'' REAL [],
         col ''rate_fee_five_year'' REAL [],
         col ''rate_fee_six_seven_year'' REAL [],
         col ''start_date_one_two_three_year'' TEXT [],
         col ''end_date_one_two_three_year'' TEXT [],
         col ''start_date_four_year'' TEXT [],
         col ''end_date_four_year'' TEXT [],
         col ''start_date_five_year'' TEXT [],
         col ''end_date_five_year'' TEXT [],
         col ''start_date_six_seven_year'' TEXT [],
         col ''end_date_six_seven_year'' TEXT []],
      foreign_keys = [(''id'', ''contracts'', ''id'')]\<rparr>"

definition macros_table :: table_def where
  "macros_table =
     \<lparr>columns =
        [col ''id'' TEXT [Not_null, Primary_key],
         col ''modified'' TEXT [Default_local_now],
         col ''macro'' BLOB [],
         col ''shifted_macro'' BLOB [],
         col ''df'' BLOB []],
      foreign_keys = [(''id'', ''contracts'', ''id'')]\<rparr>"

definition errors_table :: table_def where
  "errors_table =
     \<lparr>columns =
        [col ''id'' TEXT [Not_null, Primary_key],
         col ''modified'' TEXT [Default_local_now],
         col ''traceback'' TEXT [],
         col ''human_readable'' TEXT []],
      foreign_keys = [(''id'', ''contracts'', ''id'')]\<rparr>"

text \<open>
  \<^verbatim>\<open>
  def prepare_tables(self) -> None:
      self.execute("PRAGMA journal_mode=WAL")
      self.execute("""CREATE TABLE IF NOT EXISTS banks (...)""")
      self.execute("""CREATE TABLE IF NOT EXISTS contracts (...)""")
      self.execute("""CREATE TABLE IF NOT EXISTS interest_rates (...)""")
      self.execute("""CREATE TABLE IF NOT EXISTS macros (...)""")
      self.execute("""CREATE TABLE IF NOT EXISTS errors (...)""")

  def __enter__(self) -> "DatabaseManager":
      self.prepare_tables()
      return self
  \<close>
  The \<open>DatabaseManager\<close> that \<open>__enter__\<close> returns is the one it was called on, with its
  database file prepared.
\<close>

definition prepare_tables :: "database \<Rightarrow> py_exc + database" where
  "prepare_tables =
     run_steps
       [execute (Pragma ''journal_mode'' ''WAL''),
        execute (Create_table_if_not_exists ''banks'' banks_table),
        execute (Create_table_if_not_exists ''contracts'' contracts_table),
        execute (Create_table_if_not_exists ''interest_rates'' interest_rates_table),
        execute (Create_table_if_not_exists ''macros'' macros_table),
        execute (Create_table_if_not_exists ''errors'' errors_table)]"

definition enter :: "database \<Rightarrow> py_exc + database" where
  "enter self = (case prepare_tables self of Inl e \<Rightarrow> Inl e | Inr self' \<Rightarrow> Inr self')"

text \<open>The five tables by name, in the order \<open>prepare_tables\<close> creates them.\<close>

definition fixed_schema :: "(string \<times> table_def) list" where
  "fixed_schema =
     [(''banks'', banks_table), (''contracts'', contracts_table),
      (''interest_rates'', interest_rates_table), (''macros'', macros_table),
      (''errors'', errors_table)]"

section \<open>\<open>src/main.py\<close>\<close>

subsection \<open>\<open>iso_to_standard\<close>\<close>

text \<open>
  \<^verbatim>\<open>
  def iso_to_standard(dt: str) -> str:
      if dt[2] == "." and dt[5] == ".":
          return dt
      return datetime.fromisoformat(dt).strftime("%d.%m.%Y")
  \<close>
  Indexing past the end of the string raises \<open>IndexError\<close>; \<open>and\<close> reads \<open>dt[5]\<close> only
  when \<open>dt[2]\<close> is a dot.
\<close>

definition str_index :: "string \<Rightarrow> nat \<Rightarrow> py_exc + char" where
  "str_index s i =
     (if i < length s then Inr (s ! i)
      else Inl (Raised IndexError ''string index out of range''))"

definition iso_to_standard ::
  "(string \<Rightarrow> py_exc + datetime) \<Rightarrow> string \<Rightarrow> py_exc + string" where
  "iso_to_standard parse_iso txt =
     (case str_index txt 2 of
        Inl e \<Rightarrow> Inl e
      | Inr c2 \<Rightarrow>
          if c2 = CHR ''.'' then
            (case str_index txt 5 of
               Inl e \<Rightarrow> Inl e
             | Inr c5 \<Rightarrow>
                 if c5 = CHR ''.'' then Inr txt
                 else map_sum id strftime_dmY (fromisoformat parse_iso txt))
          else map_sum id strftime_dmY (fromisoformat parse_iso txt))"

subsection \<open>\<open>find_row\<close> and \<open>find_project\<close>\<close>

definition strip :: "('c \<Rightarrow> bool) \<Rightarrow> 'c list \<Rightarrow> 'c list" where
  "strip space s = rev (dropWhile space (rev (dropWhile space s)))"

text \<open>
  \<^verbatim>\<open>
  def find_row(parent: UiaList, project: str) -> Optional[UiaListItem]:
      rows = children(parent)
      for row in rows:
          txt = cast(str, row.window_text()).strip()
          if not txt:
              continue
          score = SequenceMatcher(None, project, txt).ratio()
          if score >= 0.8:
              print(f"{len(rows)=}, {txt=}, {score=}")
              return row
      return None
  \<close>
  \<open>first_match\<close> is the loop: the row it returns, with the text and the score it prints.
\<close>

fun first_match ::
  "('c, 'row, 'u) toolkit \<Rightarrow> 'c list \<Rightarrow> 'row list \<Rightarrow> ('row \<times> 'c list \<times> rat) option" where
  "first_match tk project_name [] = None"
| "first_match tk project_name (row # rows) =
     (let txt = strip (isspace tk) (window_text tk row) in
      if txt = [] then first_match tk project_name rows
      else
        let score = ratio tk project_name txt in
        if score \<ge> 8 / 10 then Some (row, txt, score)
        else first_match tk project_name rows)"

definition find_row ::
  "('c, 'row, 'u) toolkit \<Rightarrow> element \<Rightarrow> 'c list \<Rightarrow> ('row option, 'c, 'u) prog" where
  "find_row tk parent project_name =
     and_then (children tk parent) (\<lambda>rows.
       case first_match tk project_name rows of
         None \<Rightarrow> ret None
       | Some (row, txt, score) \<Rightarrow>
           and_then (print (Row_found (length rows) txt score)) (\<lambda>_. ret (Some row)))"

text \<open>The fields of a \<open>Contract\<close> that \<open>find_project\<close> reads.\<close>

record 'c Contract =
  contract_id_of :: "'c list"
  contragent :: "'c list"
  project :: "'c list"

text \<open>
  \<^verbatim>\<open>
  def find_project(top_win: UiaWindow, contract: Contract) -> None:
      a(top_win, lambda: child_win(top_win, title=<console>, ctrl="Button").click_input())

      query_document_box = child_win(top_win, ctrl="Document")
      query_document_box_obj = query_document_box.wrapper_object()

      delete_button = child_win(top_win, title="Delete", ctrl="Button", idx=1)

      query = prepare_query(contract.contragent)
      pyperclip.copy(query)

      a(top_win, lambda: query_document_box_obj.click_input())
      a(top_win, lambda: send_keys("^a^v"))
      a(top_win, lambda: child_win(top_win, title=<execute>, ctrl="Button").click_input())

      if not wait_for(lambda: delete_button.is_enabled() == True, timeout=10):
          print(f"{contract.contract_id=} not found")
          return

      row = find_row(child_win(top_win, ctrl="List", idx=1), project=contract.project)
      if not row:
          print(f"{contract.contract_id=} not found")
          return

      a(top_win, lambda: row.double_click_input())

      a(top_win, lambda: query_document_box_obj.click_input())
      query_document_box_obj.type_keys("{ESC}")

      if (close_button := child_win(child_win(top_win, ctrl="Pane", idx=18),
                                    title="Close", ctrl="Button")).exists():
          a(top_win, lambda: close_button.click_input())
  \<close>
  (\<open><console>\<close> and \<open><execute>\<close> stand for the two button titles.) The routine is
  written here in three parts: the steps up to the wait, the wait, and the steps after
  it. \<open>wait_for\<close> is called with its default interval of 0.1 seconds.
\<close>

definition find_project_query ::
  "('c, 'row, 'u) toolkit \<Rightarrow> 'c Contract \<Rightarrow> (unit, 'c, 'u) prog" where
  "find_project_query tk contract =
     and_then (a_act tk (Click Console_button)) (\<lambda>_.
     and_then (perform tk (Wrapper_object Query_document)) (\<lambda>_.
     and_then (perform tk (Copy_query (contragent contract))) (\<lambda>_.
     and_then (a_act tk (Click Query_document)) (\<lambda>_.
     and_then (a_act tk (Send_keys ''^a^v'')) (\<lambda>_.
     a_act tk (Click Execute_button))))))"

definition find_project_open ::
  "('c, 'row, 'u) toolkit \<Rightarrow> 'c Contract \<Rightarrow> (unit, 'c, 'u) prog" where
  "find_project_open tk contract =
     and_then (find_row tk Result_list (project contract)) (\<lambda>row.
       case row of
         None \<Rightarrow> print (Not_found (contract_id_of contract))
       | Some r \<Rightarrow>
           and_then (a_act tk (Double_click_row r)) (\<lambda>_.
           and_then (a_act tk (Click Query_document)) (\<lambda>_.
           and_then (perform tk (Type_keys Query_document ''{ESC}'')) (\<lambda>_.
           and_then (element_exists tk Close_button) (\<lambda>shown.
             if shown then a_act tk (Click Close_button) else ret ())))))"

definition find_project ::
  "('c, 'row, 'u) toolkit \<Rightarrow> 'c Contract \<Rightarrow> ('c, 'u) session \<Rightarrow>
   ((py_exc + unit) \<times> ('c, 'u) session) option" where
  "find_project tk contract w =
     (case find_project_query tk contract w of
        (Inl e, w1) \<Rightarrow> Some (Inl e, w1)
      | (Inr _, w1) \<Rightarrow>
          (case wait_for (is_enabled tk Delete_button) 10 (1 / 10) w1 of
             None \<Rightarrow> None
           | Some (Inl e, w2) \<Rightarrow> Some (Inl e, w2)
           | Some (Inr found, w2) \<Rightarrow>
               if \<not> found then Some (print (Not_found (contract_id_of contract)) w2)
               else Some (find_project_open tk contract w2)))"

text \<open>
  The rows the specification speaks of: a row that is not blank once stripped and whose
  text is similar to the project with a ratio of at least 0.8.
\<close>

definition qualifies :: "('c, 'row, 'u) toolkit \<Rightarrow> 'c list \<Rightarrow> 'row \<Rightarrow> bool" where
  "qualifies tk project_name row =
     (strip (isspace tk) (window_text tk row) \<noteq> [] \<and>
      ratio tk project_name (strip (isspace tk) (window_text tk row)) \<ge> 4 / 5)"

subsection \<open>\<open>InterestRate\<close>\<close>

text \<open>
  What \<open>sqlite3\<close> hands to Python for one column of one row: \<open>None\<close> for NULL, an
  \<open>int\<close>, a \<open>float\<close>, a \<open>str\<close> or \<open>bytes\<close>. The type \<open>'f\<close> stands for Python's
  \<open>float\<close>, with its own multiplication.
\<close>

datatype 'f sql_value = Null | Integer int | Real 'f | Text string | Blob string

text \<open>
  A row of the table \<open>interest_rates\<close>, its columns in the order of the schema in
  \<open>db_manager.py\<close>. No column but the key is declared \<open>NOT NULL\<close>.
\<close>

record 'f interest_rates_row =
  col_id :: "'f sql_value"
  col_modified :: "'f sql_value"
  col_subsid_term :: "'f sql_value"
  col_nominal_rate :: "'f sql_value"
  col_rate_one_two_three_year :: "'f sql_value"
  col_rate_four_year :: "'f sql_value"
  col_rate_five_year :: "'f sql_value"
  col_rate_six_seven_year :: "'f sql_value"
  col_rate_fee_one_two_three_year :: "'f sql_value"
  col_rate_fee_four_year :: "'f sql_value"
  col_rate_fee_five_year :: "'f sql_value"
  col_rate_fee_six_seven_year :: "'f sql_value"
  col_start_date_one_two_three_year :: "'f sql_value"
  col_end_date_one_two_three_year :: "'f sql_value"
  col_start_date_four_year :: "'f sql_value"
  col_end_date_four_year :: "'f sql_value"
  col_start_date_five_year :: "'f sql_value"
  col_end_date_five_year :: "'f sql_value"
  col_start_date_six_seven_year :: "'f sql_value"
  col_end_date_six_seven_year :: "'f sql_value"

text \<open>The dataclass \<open>InterestRate\<close>, its fields in declaration order.\<close>

record 'f InterestRate =
  contract_id :: "'f sql_value"
  subsid_term :: "'f sql_value"
  nominal_rate :: "'f sql_value"
  rate_one_two_three_year :: "'f sql_value"
  rate_four_year :: "'f sql_value"
  rate_five_year :: "'f sql_value"
  rate_six_seven_year :: "'f sql_value"
  rate_fee_one_two_three_year :: "'f sql_value"
  rate_fee_four_year :: "'f sql_value"
  rate_fee_five_year :: "'f sql_value"
  rate_fee_six_seven_year :: "'f sql_value"
  start_date_one_two_three_year :: "'f sql_value"
  end_date_one_two_three_year :: "'f sql_value"
  start_date_four_year :: "'f sql_value"
  end_date_four_year :: "'f sql_value"
  start_date_five_year :: "'f sql_value"
  end_date_five_year :: "'f sql_value"
  start_date_six_seven_year :: "'f sql_value"
  end_date_six_seven_year :: "'f sql_value"

text \<open>
  Python's \<open>v * 100\<close> on such a value: arithmetic on a number, repetition on a string or
  on bytes, \<open>TypeError\<close> on \<open>None\<close>.
\<close>

definition mul_100 :: "'f::{times,numeral} sql_value \<Rightarrow> py_exc + 'f sql_value" where
  "mul_100 v =
     (case v of
        Null \<Rightarrow> Inl (Raised TypeError ''unsupported operand type(s) for *=: NoneType and int'')
      | Integer n \<Rightarrow> Inr (Integer (n * 100))
      | Real x \<Rightarrow> Inr (Real (x * 100))
      | Text s \<Rightarrow> Inr (Text (concat (replicate 100 s)))
      | Blob s \<Rightarrow> Inr (Blob (concat (replicate 100 s))))"

text \<open>
  \<open>self.field *= 100\<close>: read the field, multiply, store.
\<close>

definition imul_100 ::
  "('r \<Rightarrow> 'f::{times,numeral} sql_value) \<Rightarrow> (('f sql_value \<Rightarrow> 'f sql_value) \<Rightarrow> 'r \<Rightarrow> 'r) \<Rightarrow>
   'r \<Rightarrow> py_exc + 'r" where
  "imul_100 getattr setattr self =
     (case mul_100 (getattr self) of
        Inl e \<Rightarrow> Inl e
      | Inr v \<Rightarrow> Inr (setattr (\<lambda>_. v) self))"

text \<open>
  \<^verbatim>\<open>
  def __post_init__(self) -> None:
      self.nominal_rate *= 100
      self.rate_one_two_three_year *= 100
      self.rate_four_year *= 100
      self.rate_five_year *= 100
      self.rate_six_seven_year *= 100
      self.rate_fee_one_two_three_year *= 100
      self.rate_fee_four_year *= 100
      self.rate_fee_five_year *= 100
      self.rate_fee_six_seven_year *= 100
  \<close>
\<close>

definition InterestRate_post_init ::
  "'f::{times,numeral} InterestRate \<Rightarrow> py_exc + 'f InterestRate" where
  "InterestRate_post_init =
     run_steps
       [imul_100 nominal_rate nominal_rate_update,
        imul_100 rate_one_two_three_year rate_one_two_three_year_update,
        imul_100 rate_four_year rate_four_year_update,
        imul_100 rate_five_year rate_five_year_update,
        imul_100 rate_six_seven_year rate_six_seven_year_update,
        imul_100 rate_fee_one_two_three_year rate_fee_one_two_three_year_update,
        imul_100 rate_fee_four_year rate_fee_four_year_update,
        imul_100 rate_fee_five_year rate_fee_five_year_update,
        imul_100 rate_fee_six_seven_year rate_fee_six_seven_year_update]"

text \<open>
  The generated \<open>__init__\<close> takes the nineteen fields by position, stores them and calls
  \<open>__post_init__\<close>; another number of arguments is a \<open>TypeError\<close>.
\<close>

definition InterestRate_init ::
  "'f::{times,numeral} sql_value list \<Rightarrow> py_exc + 'f InterestRate" where
  "InterestRate_init args =
     (case args of
        [a1, a2, a3, a4, a5, a6, a7, a8, a9, a10, a11, a12, a13, a14, a15, a16, a17, a18, a19] \<Rightarrow>
          InterestRate_post_init
            \<lparr>contract_id = a1, subsid_term = a2, nominal_rate = a3,
             rate_one_two_three_year = a4, rate_four_year = a5, rate_five_year = a6,
             rate_six_seven_year = a7, rate_fee_one_two_three_year = a8,
             rate_fee_four_year = a9, rate_fee_five_year = a10,
             rate_fee_six_seven_year = a11, start_date_one_two_three_year = a12,
             end_date_one_two_three_year = a13, start_date_four_year = a14,
             end_date_four_year = a15, start_date_five_year = a16,
             end_date_five_year = a17, start_date_six_seven_year = a18,
             end_date_six_seven_year = a19\<rparr>
      | _ \<Rightarrow> Inl (Raised TypeError ''__init__() takes 20 positional arguments''))"

text \<open>
  The query of \<open>InterestRate.load\<close>: the select list, in its order, of every row whose
  \<open>id\<close> is the parameter \<open>cid\<close> (the source's \<open>contract_id\<close>).
  \<^verbatim>\<open>
  SELECT id, subsid_term, nominal_rate, rate_one_two_three_year, rate_four_year,
         rate_five_year, rate_six_seven_year, rate_fee_one_two_three_year,
         rate_fee_four_year, rate_fee_five_year, rate_fee_six_seven_year,
         start_date_one_two_three_year, end_date_one_two_three_year,
         start_date_four_year, end_date_four_year, start_date_five_year,
         end_date_five_year, start_date_six_seven_year, end_date_six_seven_year
  FROM interest_rates WHERE id = ?
  \<close>
\<close>

definition select_rate :: "'f interest_rates_row \<Rightarrow> 'f sql_value list" where
  "select_rate r =
     [col_id r, col_subsid_term r, col_nominal_rate r, col_rate_one_two_three_year r,
      col_rate_four_year r, col_rate_five_year r, col_rate_six_seven_year r,
      col_rate_fee_one_two_three_year r, col_rate_fee_four_year r, col_rate_fee_five_year r,
      col_rate_fee_six_seven_year r, col_start_date_one_two_three_year r,
      col_end_date_one_two_three_year r, col_start_date_four_year r, col_end_date_four_year r,
      col_start_date_five_year r, col_end_date_five_year r, col_start_date_six_seven_year r,
      col_end_date_six_seven_year r]"

definition query_rates :: "'f interest_rates_row list \<Rightarrow> string \<Rightarrow> 'f sql_value list list" where
  "query_rates interest_rates cid =
     map select_rate (filter (\<lambda>r. col_id r = Text cid) interest_rates)"

text \<open>
  \<^verbatim>\<open>
  return InterestRate(*raw_rate[0])
  \<close>
  \<open>raw_rate[0]\<close> on an empty result raises \<open>IndexError\<close>.
\<close>

definition load ::
  "'f::{times,numeral} interest_rates_row list \<Rightarrow> string \<Rightarrow> py_exc + 'f InterestRate" where
  "load interest_rates cid =
     (case query_rates interest_rates cid of
        [] \<Rightarrow> Inl (Raised IndexError ''list index out of range'')
      | raw_rate # _ \<Rightarrow> InterestRate_init raw_rate)"

section \<open>Sample inputs\<close>

text \<open>
  One behaviour of the two library parameters, used to run the functions on concrete
  input: \<open>float\<close> on an optional sign, digits and an optional fraction, and the
  date-only form \<open>YYYY-MM-DD\<close> of \<open>fromisoformat\<close>.
\<close>

definition digit_val :: "char \<Rightarrow> nat option" where
  "digit_val c =
     (if 48 \<le> (of_char c :: nat) \<and> (of_char c :: nat) \<le> 57 then Some (of_char c - 48) else None)"

fun digits_val :: "nat \<Rightarrow> string \<Rightarrow> nat option" where
  "digits_val acc [] = Some acc"
| "digits_val acc (c # cs) =
     (case digit_val c of None \<Rightarrow> None | Some v \<Rightarrow> digits_val (10 * acc + v) cs)"

definition number_val :: "string \<Rightarrow> nat option" where
  "number_val s = (if s = [] then None else digits_val 0 s)"

definition parse_iso_date :: "string \<Rightarrow> py_exc + datetime" where
  "parse_iso_date s =
     (if length s = 10 \<and> s ! 4 = CHR ''-'' \<and> s ! 7 = CHR ''-'' then
        (case (number_val (take 4 s), number_val (take 2 (drop 5 s)), number_val (drop 8 s)) of
           (Some y, Some m, Some d) \<Rightarrow>
             Inr \<lparr>year = y, month = m, day = d, hour = 0, minute = 0, second = 0,
                  microsecond = 0\<rparr>
         | _ \<Rightarrow> Inl (Raised ValueError ''Invalid isoformat string''))
      else Inl (Raised ValueError ''Invalid isoformat string''))"

definition decimal_float :: "string \<Rightarrow> py_exc + rat" where
  "decimal_float s =
     (let whole = takeWhile (\<lambda>c. c \<noteq> CHR ''.'') s;
          frac = drop (Suc (length whole)) s
      in case (number_val whole, if frac = [] then Some 0 else number_val frac) of
           (Some w, Some f) \<Rightarrow> Inr (of_nat w + of_nat f / 10 ^ length frac)
         | _ \<Rightarrow> Inl (Raised ValueError ''could not convert string to float''))"


text \<open>A row of \<open>interest_rates\<close> with every rate filled in, rates as exact fractions.\<close>

definition sample_rate_row :: "rat interest_rates_row" where
  "sample_rate_row =
     \<lparr>col_id = Text ''C-1'', col_modified = Text ''2024-03-07 10:00:00'',
      col_subsid_term = Integer 36, col_nominal_rate = Real (21 / 100),
      col_rate_one_two_three_year = Real (7 / 100), col_rate_four_year = Real (8 / 100),
      col_rate_five_year = Real (9 / 100), col_rate_six_seven_year = Real (10 / 100),
      col_rate_fee_one_two_three_year = Real (14 / 100), col_rate_fee_four_year = Real (13 / 100),
      col_rate_fee_five_year = Real (12 / 100), col_rate_fee_six_seven_year = Real (11 / 100),
      col_start_date_one_two_three_year = Text ''2024-01-01'',
      col_end_date_one_two_three_year = Text ''2026-12-31'',
      col_start_date_four_year = Null, col_end_date_four_year = Null,
      col_start_date_five_year = Null, col_end_date_five_year = Null,
      col_start_date_six_seven_year = Null, col_end_date_six_seven_year = Null\<rparr>"

text \<open>
  One behaviour of \<open>datetime.strptime\<close>: the format \<open>%d.%m.%y\<close> on \<open>dd.mm.yy\<close>, a
  two-digit year below 69 read as 20yy and the others as 19yy.
\<close>

definition sample_strptime :: "string \<Rightarrow> string \<Rightarrow> py_exc + datetime" where
  "sample_strptime s date_format =
     (if date_format = ''%d.%m.%y'' \<and> length s = 8 \<and> s ! 2 = CHR ''.'' \<and> s ! 5 = CHR ''.'' then
        (case (number_val (take 2 s), number_val (take 2 (drop 3 s)), number_val (drop 6 s)) of
           (Some d, Some m, Some y) \<Rightarrow>
             Inr \<lparr>year = (if y < 69 then 2000 + y else 1900 + y), month = m, day = d,
                  hour = 0, minute = 0, second = 0, microsecond = 0\<rparr>
         | _ \<Rightarrow> Inl (Raised ValueError ''time data does not match format''))
      else Inl (Raised ValueError ''time data does not match format''))"

text \<open>The arguments of a \<open>VacationWithdrawOrder\<close> read from a report, the date as text.\<close>

definition sample_withdraw_args :: "rat py_value list" where
  "sample_withdraw_args =
     [PyStr ''Ivanov Ivan'', PyTuple [PyStr ''Ivanov'', PyStr ''Ivan''], PyStr ''17'',
      PyStr ''07.03.24'', PyBool False, PyStr ''shots/Ivanov_17.jpeg'']"

text \<open>
  A toolkit on which every action succeeds at once, the window is active, looking at the
  \<open>Delete\<close> button takes eleven seconds and answers \<open>result_shown\<close>, and the result list
  shows a blank row and two projects. A row is its own text; two texts are similar
  (ratio 1) when they are equal and have ratio 0 otherwise.
\<close>

definition sample_toolkit :: "bool \<Rightarrow> (char, string, unit) toolkit" where
  "sample_toolkit result_shown =
     \<lparr>perform = (\<lambda>act w. (Inr (), w)),
      is_active = (\<lambda>w. (Inr True, w)),
      is_enabled = (\<lambda>el w. (Inr result_shown, w\<lparr>clock := clock w + 11\<rparr>)),
      element_exists = (\<lambda>el w. (Inr False, w)),
      children = (\<lambda>el w. (Inr [''  '', ''Bakery'', '' Dairy farm ''], w)),
      window_text = (\<lambda>row. row),
      isspace = (\<lambda>c. c = CHR '' ''),
      ratio = (\<lambda>x y. if x = y then 1 else 0)\<rparr>"

definition sample_contract :: "char Contract" where
  "sample_contract =
     \<lparr>contract_id_of = ''C-1'', contragent = ''123456789012'', project = ''Brewery''\<rparr>"

definition sample_session :: "(char, unit) session" where
  "sample_session = \<lparr>clock = 0, env = \<lparr>printed = [], gui = ()\<rparr>\<rparr>"






text \<open>A database file from an earlier release: only \<open>banks\<close> exists, with one column.\<close>

definition legacy_banks :: table_def where
  "legacy_banks = \<lparr>columns = [col ''bank_id'' TEXT []], foreign_keys = []\<rparr>"

definition legacy_db :: database where
  "legacy_db =
     \<lparr>available = True, pragmas = Map.empty, objects = [''banks'' \<mapsto> Table legacy_banks]\<rparr>"

text \<open>
  A vacation job for the first week of March 2024, a file system with its report and its
  screenshot folder, a mail server that accepts every recipient, one that refuses one
  and one that refuses all of them.
\<close>

definition sample_job :: Job where
  "sample_job =
     \<lparr>job_name = ''VACATION'',
      t_range =
        \<lparr>t_start =
           \<lparr>dt = \<lparr>year = 2024, month = 3, day = 1, hour = 0, minute = 0, second = 0,
                   microsecond = 0\<rparr>,
            long = ''01.03.2024'', short = ''01.03.24''\<rparr>,
         t_end =
           \<lparr>dt = \<lparr>year = 2024, month = 3, day = 7, hour = 0, minute = 0, second = 0,
                   microsecond = 0\<rparr>,
            long = ''07.03.2024'', short = ''07.03.24''\<rparr>\<rparr>,
      mail_info =
        \<lparr>server = ''mail.local'', sender = ''robot@mail.local'',
         recipients = ''hr@mail.local;;boss@mail.local'', subject = ''Vacation orders'',
         report_path = [''reports'', ''report.xlsx''],
         screenshot_folder = [''screenshots'']\<rparr>\<rparr>"

definition sample_fs :: filesystem where
  "sample_fs =
     \<lparr>files = [[''reports'', ''report.xlsx''] \<mapsto> Bytes ''PK-xlsx''],
      folders = {[''reports''], [''screenshots'']}\<rparr>"

definition accepting_service :: smtp_service where
  "accepting_service =
     \<lparr>formatdate = ''Thu, 07 Mar 2024 18:00:00 +0500'',
      smtp_connect = (\<lambda>host. None),
      sendmail = (\<lambda>from_addr to_addrs msg. Inr []),
      quit_reply = Some 221\<rparr>"

definition refusing_service :: smtp_service where
  "refusing_service =
     \<lparr>formatdate = ''Thu, 07 Mar 2024 18:00:00 +0500'',
      smtp_connect = (\<lambda>host. None),
      sendmail = (\<lambda>from_addr to_addrs msg. Inr [(''boss@mail.local'', ''550 mailbox unavailable'')]),
      quit_reply = Some 221\<rparr>"

definition rejecting_service :: smtp_service where
  "rejecting_service =
     \<lparr>formatdate = ''Thu, 07 Mar 2024 18:00:00 +0500'',
      smtp_connect = (\<lambda>host. None),
      sendmail = (\<lambda>from_addr to_addrs msg.
        Inl (Raised SMTPRecipientsRefused ''all recipients refused'')),
      quit_reply = None\<rparr>"

text \<open>
  Surroundings in which the picture is taken and the message is delivered, a job that
  finishes, one that is interrupted from the keyboard and one that fails, and a host on
  which nothing has happened yet.
\<close>

definition sample_surroundings :: "(string, string, unit) surroundings" where
  "sample_surroundings =
     \<lparr>format_exc = (\<lambda>error. ''Traceback (most recent call last): ...''),
      developer = Some ''dev'',
      grab = (\<lambda>u. (Inr ''screen.jpeg'', u)),
      send_message = (\<lambda>bot message media u. (Inr True, u))\<rparr>"

definition finished_job :: "unit \<Rightarrow> string kwargs \<Rightarrow> unit \<Rightarrow> (py_exc + nat) \<times> unit" where
  "finished_job args kwargs u = (Inr 42, u)"

definition interrupted_job :: "unit \<Rightarrow> string kwargs \<Rightarrow> unit \<Rightarrow> (py_exc + nat) \<times> unit" where
  "interrupted_job args kwargs u = (Inl (Raised KeyboardInterrupt []), u)"

definition failing_job :: "unit \<Rightarrow> string kwargs \<Rightarrow> unit \<Rightarrow> (py_exc + nat) \<times> unit" where
  "failing_job args kwargs u = (Inl (Raised ValueError ''bad order''), u)"

definition quiet_host :: "(string, string, unit) host" where
  "quiet_host = \<lparr>logged = [], sent = [], outside = ()\<rparr>"

chapter \<open>Properties\<close>

section \<open>Helper facts\<close>

lemma isinstance_simps [simp]:
  "isinstance (Raised c m) d = issubclass c d"
  by (simp add: isinstance_def)

lemma issubclass_refl [simp]: "issubclass c c"
  by (cases c) (simp_all add: issubclass_def eval_nat_numeral)

lemma dec_small: "n < 10 \<Longrightarrow> dec n = [digit_char n]"
  by (simp add: dec.simps)

lemma dec_ge10: "10 \<le> n \<Longrightarrow> dec n = dec (n div 10) @ [digit_char (n mod 10)]"
  by (subst dec.simps) simp

lemma dec_two: "10 \<le> n \<Longrightarrow> n < 100 \<Longrightarrow> dec n = [digit_char (n div 10), digit_char (n mod 10)]"
  by (subst dec.simps) (simp add: dec_small)

lemma zfill2_dec: "n < 100 \<Longrightarrow> \<exists>a b. zfill 2 (dec n) = [a, b]"
  by (cases "n < 10") (simp_all add: zfill_def dec_small dec_two)

lemma valid_datetime_bounds:
  assumes "valid_datetime d"
  shows "day d < 100" and "month d < 100"
proof -
  from assms have m: "month d \<le> 12" and dd: "day d \<le> days_in_month (year d) (month d)"
    by (simp_all add: valid_datetime_def)
  have "days_in_month (year d) (month d) \<le> 31"
    by (simp add: days_in_month_def)
  with dd show "day d < 100" by simp
  from m show "month d < 100" by simp
qed

lemma strftime_dmY_dots:
  assumes "valid_datetime d"
  shows "5 < length (strftime_dmY d) \<and> strftime_dmY d ! 2 = CHR ''.'' \<and>
         strftime_dmY d ! 5 = CHR ''.''"
proof -
  obtain a b where a: "zfill 2 (dec (day d)) = [a, b]"
    using zfill2_dec [OF valid_datetime_bounds(1) [OF assms]] by blast
  obtain p q where p: "zfill 2 (dec (month d)) = [p, q]"
    using zfill2_dec [OF valid_datetime_bounds(2) [OF assms]] by blast
  have "strftime_dmY d = a # b # CHR ''.'' # p # q # CHR ''.'' # zfill 4 (dec (year d))"
    by (simp add: strftime_dmY_def a p)
  then show ?thesis by simp
qed

lemma iso_to_standard_dotted:
  "5 < length txt \<Longrightarrow> txt ! 2 = CHR ''.'' \<Longrightarrow> txt ! 5 = CHR ''.'' \<Longrightarrow>
   iso_to_standard parse_iso txt = Inr txt"
  by (simp add: iso_to_standard_def str_index_def)

subsection \<open>Unfolding the polling loop\<close>

lemma wait_loop_skip:
  assumes "\<forall>k<n. fst (poll condition interval w k) = Inr False \<and>
             clock (snd (poll condition interval w k)) - start \<le> timeout"
  shows "wait_loop condition start timeout interval w =
         wait_loop condition start timeout interval (before_poll condition interval w n)"
  using assms
proof (induction n)
  case 0
  then show ?case by simp
next
  case (Suc n)
  then have step: "fst (poll condition interval w n) = Inr False"
      "clock (snd (poll condition interval w n)) - start \<le> timeout"
    by simp_all
  from Suc have "wait_loop condition start timeout interval w =
      wait_loop condition start timeout interval (before_poll condition interval w n)"
    by simp
  also have "\<dots> = wait_loop condition start timeout interval
      (before_poll condition interval w (Suc n))"
    using step
    by (subst wait_loop.simps) (auto simp: poll_def split: prod.splits sum.splits)
  finally show ?case .
qed

lemma wait_loop_stop:
  assumes "fst (poll condition interval w n) \<noteq> Inr False \<or>
           clock (snd (poll condition interval w n)) - start > timeout"
  shows "wait_loop condition start timeout interval (before_poll condition interval w n) =
         Some (poll condition interval w n)"
  using assms
  by (subst wait_loop.simps) (auto simp: poll_def split: prod.splits sum.splits)

lemma clock_before_poll:
  assumes "\<forall>w. clock w \<le> clock (snd (condition w))" and "0 \<le> interval"
  shows "clock w + of_nat k * interval \<le> clock (before_poll condition interval w k)"
proof (induction k)
  case 0
  then show ?case by simp
next
  case (Suc k)
  have "clock (before_poll condition interval w (Suc k)) =
      clock (snd (condition (before_poll condition interval w k))) + interval"
    by (simp add: sleep_def)
  moreover have "clock (before_poll condition interval w k) \<le>
      clock (snd (condition (before_poll condition interval w k)))"
    using assms(1) by blast
  ultimately show ?case
    using Suc by (simp add: algebra_simps)
qed

lemma poll_times_out:
  assumes mono: "\<forall>w. clock w \<le> clock (snd (condition w))" and pos: "0 < interval"
  shows "\<exists>n. clock (snd (poll condition interval w n)) - clock w > timeout"
proof -
  obtain n :: nat where n: "timeout / interval < of_nat n"
    using reals_Archimedean2 by blast
  then have "timeout < of_nat n * interval"
    using pos by (simp add: pos_divide_less_eq)
  also have "\<dots> \<le> clock (before_poll condition interval w n) - clock w"
    using clock_before_poll [OF mono, of interval w n] pos by simp
  also have "\<dots> \<le> clock (snd (poll condition interval w n)) - clock w"
    using mono by (simp add: poll_def)
  finally show ?thesis by blast
qed

lemma wait_for_returns:
  assumes pos: "0 < interval"
    and mono: "\<forall>w. clock w \<le> clock (snd (condition w))"
  shows "\<exists>n. (\<forall>k<n. fst (poll condition interval w k) = Inr False \<and>
                  clock (snd (poll condition interval w k)) - clock w \<le> timeout) \<and>
             (fst (poll condition interval w n) \<noteq> Inr False \<or>
                clock (snd (poll condition interval w n)) - clock w > timeout) \<and>
             wait_for condition timeout interval w = Some (poll condition interval w n)"
proof -
  define stops where "stops n \<longleftrightarrow> fst (poll condition interval w n) \<noteq> Inr False \<or>
      clock (snd (poll condition interval w n)) - clock w > timeout" for n
  have "\<exists>n. stops n"
    using poll_times_out [OF mono pos, where w = w and timeout = timeout]
    by (auto simp: stops_def)
  then obtain n where n: "stops n" and least: "\<forall>k<n. \<not> stops k"
    using exists_least_iff [of stops] by blast
  from least have before: "\<forall>k<n. fst (poll condition interval w k) = Inr False \<and>
      clock (snd (poll condition interval w k)) - clock w \<le> timeout"
    by (auto simp: stops_def not_less)
  have "wait_for condition timeout interval w =
      wait_loop condition (clock w) timeout interval (before_poll condition interval w n)"
    unfolding wait_for_def by (rule wait_loop_skip [OF before])
  also have "\<dots> = Some (poll condition interval w n)"
    using n unfolding stops_def by (rule wait_loop_stop)
  finally show ?thesis
    using before n by (auto simp: stops_def)
qed

subsection \<open>Constructing an \<open>InterestRate\<close>\<close>

lemma imul_100_Real:
  "getattr self = Real x \<Longrightarrow> imul_100 getattr setattr self = Inr (setattr (\<lambda>_. Real (x * 100)) self)"
  by (simp add: imul_100_def mul_100_def)

lemma InterestRate_post_init_Real:
  assumes "nominal_rate r = Real x1" "rate_one_two_three_year r = Real x2"
    "rate_four_year r = Real x3" "rate_five_year r = Real x4" "rate_six_seven_year r = Real x5"
    "rate_fee_one_two_three_year r = Real x6" "rate_fee_four_year r = Real x7"
    "rate_fee_five_year r = Real x8" "rate_fee_six_seven_year r = Real x9"
  shows "InterestRate_post_init r =
    Inr (r\<lparr>nominal_rate := Real (x1 * 100), rate_one_two_three_year := Real (x2 * 100),
          rate_four_year := Real (x3 * 100), rate_five_year := Real (x4 * 100),
          rate_six_seven_year := Real (x5 * 100), rate_fee_one_two_three_year := Real (x6 * 100),
          rate_fee_four_year := Real (x7 * 100), rate_fee_five_year := Real (x8 * 100),
          rate_fee_six_seven_year := Real (x9 * 100)\<rparr>)"
  using assms by (simp add: InterestRate_post_init_def imul_100_Real)

lemma InterestRate_init_19:
  "InterestRate_init [a1, a2, a3, a4, a5, a6, a7, a8, a9, a10, a11, a12, a13, a14, a15, a16, a17, a18, a19] =
     InterestRate_post_init
            \<lparr>contract_id = a1, subsid_term = a2, nominal_rate = a3,
             rate_one_two_three_year = a4, rate_four_year = a5, rate_five_year = a6,
             rate_six_seven_year = a7, rate_fee_one_two_three_year = a8,
             rate_fee_four_year = a9, rate_fee_five_year = a10,
             rate_fee_six_seven_year = a11, start_date_one_two_three_year = a12,
             end_date_one_two_three_year = a13, start_date_four_year = a14,
             end_date_four_year = a15, start_date_five_year = a16,
             end_date_five_year = a17, start_date_six_seven_year = a18,
             end_date_six_seven_year = a19\<rparr>"
  by (simp add: InterestRate_init_def)

lemma load_first:
  assumes "find (\<lambda>r. col_id r = Text cid) interest_rates = Some row"
  shows "load interest_rates cid = InterestRate_init (select_rate row)"
proof -
  from assms obtain rest where "filter (\<lambda>r. col_id r = Text cid) interest_rates = row # rest"
    by (induction interest_rates) (auto split: if_splits)
  then show ?thesis by (simp add: load_def query_rates_def)
qed

subsection \<open>Date normalization\<close>

lemma convert_date_normalized:
  "convert_date strptime f fmt obj = Inr obj' \<longleftrightarrow>
     (\<exists>v v'. obj f = Some v \<and> normalized strptime fmt v = Some v' \<and> obj' = obj(f \<mapsto> v'))"
  by (cases "obj f")
    (auto simp: convert_date_def normalized_def to_date_def map_upd_triv
      split: py_value.splits sum.splits)

lemma run_convert_dates:
  assumes "distinct fs"
  shows "run_steps (map (\<lambda>f. convert_date strptime f fmt) fs) obj = Inr obj' \<longleftrightarrow>
     (\<forall>f. f \<in> set fs \<longrightarrow>
        (\<exists>v v'. obj f = Some v \<and> normalized strptime fmt v = Some v' \<and> obj' f = Some v')) \<and>
     (\<forall>f. f \<notin> set fs \<longrightarrow> obj' f = obj f)"
  using assms
proof (induction fs arbitrary: obj)
  case Nil
  then show ?case by (auto simp: fun_eq_iff)
next
  case (Cons g gs)
  then have dist: "distinct gs" and fresh: "g \<notin> set gs" by simp_all
  show ?case
  proof
    assume run: "run_steps (map (\<lambda>f. convert_date strptime f fmt) (g # gs)) obj = Inr obj'"
    then obtain mid where first: "convert_date strptime g fmt obj = Inr mid"
      and rest: "run_steps (map (\<lambda>f. convert_date strptime f fmt) gs) mid = Inr obj'"
      by (auto split: sum.splits)
    from first obtain v v' where v: "obj g = Some v" "normalized strptime fmt v = Some v'"
      "mid = obj(g \<mapsto> v')"
      by (auto simp: convert_date_normalized)
    from rest Cons.IH [OF dist, of mid]
    have tail: "\<forall>f. f \<in> set gs \<longrightarrow>
        (\<exists>v v'. mid f = Some v \<and> normalized strptime fmt v = Some v' \<and> obj' f = Some v')"
      and frame: "\<forall>f. f \<notin> set gs \<longrightarrow> obj' f = mid f"
      by simp_all
    show "(\<forall>f. f \<in> set (g # gs) \<longrightarrow>
        (\<exists>v v'. obj f = Some v \<and> normalized strptime fmt v = Some v' \<and> obj' f = Some v')) \<and>
      (\<forall>f. f \<notin> set (g # gs) \<longrightarrow> obj' f = obj f)"
      using v tail frame fresh by (auto split: if_splits)
  next
    assume spec: "(\<forall>f. f \<in> set (g # gs) \<longrightarrow>
        (\<exists>v v'. obj f = Some v \<and> normalized strptime fmt v = Some v' \<and> obj' f = Some v')) \<and>
      (\<forall>f. f \<notin> set (g # gs) \<longrightarrow> obj' f = obj f)"
    then obtain v v' where v: "obj g = Some v" "normalized strptime fmt v = Some v'"
      "obj' g = Some v'"
      by auto
    then have first: "convert_date strptime g fmt obj = Inr (obj(g \<mapsto> v'))"
      by (simp add: convert_date_normalized)
    have "run_steps (map (\<lambda>f. convert_date strptime f fmt) gs) (obj(g \<mapsto> v')) = Inr obj'"
      using spec v fresh by (subst Cons.IH [OF dist]) auto
    with first show "run_steps (map (\<lambda>f. convert_date strptime f fmt) (g # gs)) obj = Inr obj'"
      by simp
  qed
qed

lemma order_classes_post_init:
  assumes "(flds, post_init) \<in> set (order_classes strptime)"
  shows "post_init = run_steps (map (\<lambda>f. convert_date strptime f ''%d.%m.%y'') (date_fields flds))"
    and "distinct (date_fields flds)"
  using assms
  by (auto simp: order_classes_def date_fields_def required_def optional_def
      BusinessTripOrder_fields_def BusinessTripOrder_post_init_def
      VacationOrder_fields_def VacationOrder_post_init_def
      VacationWithdrawOrder_fields_def VacationWithdrawOrder_post_init_def
      FiringOrder_fields_def FiringOrder_post_init_def
      MentorshipOrder_fields_def MentorshipOrder_post_init_def
      VNDOrder_fields_def VNDOrder_post_init_def
      TripAddPayOrder_fields_def TripAddPayOrder_post_init_def
      VacationAddPayOrder_fields_def VacationAddPayOrder_post_init_def)

lemma order_constructor:
  assumes cls: "(flds, post_init) \<in> set (order_classes strptime)"
    and lo: "length (filter (\<lambda>f. \<not> has_default f) flds) \<le> length args"
    and hi: "length args \<le> length flds"
  shows "dataclass_init flds post_init args = Inr obj' \<longleftrightarrow>
     (\<forall>g. g \<in> set (date_fields flds) \<longrightarrow>
        (\<exists>v v'. bind_args flds args g = Some v \<and>
           normalized strptime ''%d.%m.%y'' v = Some v' \<and> obj' g = Some v')) \<and>
     (\<forall>g. g \<notin> set (date_fields flds) \<longrightarrow> obj' g = bind_args flds args g)"
proof -
  from lo hi have "dataclass_init flds post_init args = post_init (bind_args flds args)"
    by (simp add: dataclass_init_def)
  also have "\<dots> = run_steps
      (map (\<lambda>f. convert_date strptime f ''%d.%m.%y'') (date_fields flds)) (bind_args flds args)"
    using order_classes_post_init(1) [OF cls] by simp
  finally show ?thesis
    using run_convert_dates [OF order_classes_post_init(2) [OF cls]] by simp
qed

subsection \<open>Finding the row\<close>

lemma first_match_None:
  "first_match tk p rows = None \<longleftrightarrow> (\<forall>row \<in> set rows. \<not> qualifies tk p row)"
  by (induction rows) (auto simp: qualifies_def Let_def)

lemma first_match_Some:
  "(\<exists>txt score. first_match tk p rows = Some (row, txt, score)) \<longleftrightarrow>
     (\<exists>i < length rows. rows ! i = row \<and> qualifies tk p row \<and>
        (\<forall>j < i. \<not> qualifies tk p (rows ! j)))"
proof (induction rows)
  case Nil
  then show ?case by simp
next
  case (Cons r rs)
  show ?case
  proof (cases "qualifies tk p r")
    case True
    then have "first_match tk p (r # rs) =
        Some (r, strip (isspace tk) (window_text tk r),
              ratio tk p (strip (isspace tk) (window_text tk r)))"
      by (simp add: qualifies_def Let_def)
    moreover have "(\<exists>i < length (r # rs). (r # rs) ! i = row \<and> qualifies tk p row \<and>
        (\<forall>j < i. \<not> qualifies tk p ((r # rs) ! j))) \<longleftrightarrow> row = r"
    proof
      assume "\<exists>i < length (r # rs). (r # rs) ! i = row \<and> qualifies tk p row \<and>
        (\<forall>j < i. \<not> qualifies tk p ((r # rs) ! j))"
      then obtain i where i: "(r # rs) ! i = row" "\<forall>j < i. \<not> qualifies tk p ((r # rs) ! j)"
        by blast
      have "i = 0"
      proof (rule ccontr)
        assume "i \<noteq> 0"
        then have "\<not> qualifies tk p ((r # rs) ! 0)" using i(2) by blast
        with True show False by simp
      qed
      with i(1) show "row = r" by simp
    next
      assume "row = r"
      with True show "\<exists>i < length (r # rs). (r # rs) ! i = row \<and> qualifies tk p row \<and>
        (\<forall>j < i. \<not> qualifies tk p ((r # rs) ! j))"
        by (intro exI [of _ 0]) simp
    qed
    ultimately show ?thesis by auto
  next
    case False
    then have skip: "first_match tk p (r # rs) = first_match tk p rs"
      by (auto simp: qualifies_def Let_def)
    have "(\<exists>i < length (r # rs). (r # rs) ! i = row \<and> qualifies tk p row \<and>
        (\<forall>j < i. \<not> qualifies tk p ((r # rs) ! j))) \<longleftrightarrow>
      (\<exists>i < length rs. rs ! i = row \<and> qualifies tk p row \<and>
        (\<forall>j < i. \<not> qualifies tk p (rs ! j)))"
    proof
      assume "\<exists>i < length (r # rs). (r # rs) ! i = row \<and> qualifies tk p row \<and>
        (\<forall>j < i. \<not> qualifies tk p ((r # rs) ! j))"
      then obtain i where i: "i < length (r # rs)" "(r # rs) ! i = row" "qualifies tk p row"
        "\<forall>j < i. \<not> qualifies tk p ((r # rs) ! j)"
        by blast
      with False obtain k where k: "i = Suc k" by (cases i) auto
      have "\<forall>j < k. \<not> qualifies tk p (rs ! j)"
      proof (intro allI impI)
        fix j assume "j < k"
        then have "Suc j < i" using k by simp
        with i(4) have "\<not> qualifies tk p ((r # rs) ! Suc j)" by blast
        then show "\<not> qualifies tk p (rs ! j)" by simp
      qed
      with i k show "\<exists>i < length rs. rs ! i = row \<and> qualifies tk p row \<and>
        (\<forall>j < i. \<not> qualifies tk p (rs ! j))"
        by (intro exI [of _ k]) simp
    next
      assume "\<exists>i < length rs. rs ! i = row \<and> qualifies tk p row \<and>
        (\<forall>j < i. \<not> qualifies tk p (rs ! j))"
      then obtain k where k: "k < length rs" "rs ! k = row" "qualifies tk p row"
        "\<forall>j < k. \<not> qualifies tk p (rs ! j)"
        by blast
      have "\<forall>j < Suc k. \<not> qualifies tk p ((r # rs) ! j)"
      proof (intro allI impI)
        fix j assume "j < Suc k"
        then show "\<not> qualifies tk p ((r # rs) ! j)"
          using False k(4) by (cases j) simp_all
      qed
      with k show "\<exists>i < length (r # rs). (r # rs) ! i = row \<and> qualifies tk p row \<and>
        (\<forall>j < i. \<not> qualifies tk p ((r # rs) ! j))"
        by (intro exI [of _ "Suc k"]) simp
    qed
    with skip Cons.IH show ?thesis by simp
  qed
qed

subsection \<open>The focus loop\<close>



subsection \<open>The start loop\<close>


subsection \<open>Creating tables\<close>

lemma execute_create:
  assumes "execute (Create_table_if_not_exists n t) db = Inr db'"
  shows "objects db' = (case objects db n of None \<Rightarrow> (objects db)(n \<mapsto> Table t)
           | Some x \<Rightarrow> objects db)"
    and "available db'" and "pragmas db' = pragmas db" and "objects db n \<noteq> Some Index"
  using assms
  by (auto simp: execute_def split: if_splits option.splits schema_object.splits)

lemma execute_create_ok:
  assumes "available db" and "objects db n \<noteq> Some Index"
  shows "\<exists>db'. execute (Create_table_if_not_exists n t) db = Inr db'"
  using assms
  by (auto simp: execute_def split: option.splits schema_object.splits)

lemma create_all:
  assumes "distinct (map fst defs)"
    and "run_steps (map (\<lambda>(n, t). execute (Create_table_if_not_exists n t)) defs) db = Inr db'"
  shows "objects db' = (map_option Table \<circ> map_of defs) ++ objects db"
    and "pragmas db' = pragmas db"
    and "\<forall>n \<in> fst ` set defs. objects db n \<noteq> Some Index"
  using assms
proof (induction defs arbitrary: db)
  case Nil
  {
    case 1 then show ?case by simp
  next
    case 2 then show ?case by simp
  next
    case 3 then show ?case by simp
  }
next
  case (Cons d defs)
  obtain n t where d: "d = (n, t)" by (cases d)
  {
    case 1
    then obtain mid where first: "execute (Create_table_if_not_exists n t) db = Inr mid"
      and rest: "run_steps (map (\<lambda>(n, t). execute (Create_table_if_not_exists n t)) defs) mid = Inr db'"
      by (auto simp: d split: sum.splits)
    from 1 have dist: "distinct (map fst defs)" and fresh: "n \<notin> fst ` set defs"
      by (auto simp: d)
    from fresh have none: "map_of defs n = None"
      by (simp add: map_of_eq_None_iff)
    have "objects db' = (map_option Table \<circ> map_of defs) ++ objects mid"
      using Cons.IH(1) [OF dist rest] .
    then show ?case
      using execute_create(1) [OF first] none
      by (auto simp: d fun_eq_iff map_add_def split: option.splits)
  next
    case 2
    then obtain mid where first: "execute (Create_table_if_not_exists n t) db = Inr mid"
      and rest: "run_steps (map (\<lambda>(n, t). execute (Create_table_if_not_exists n t)) defs) mid = Inr db'"
      by (auto simp: d split: sum.splits)
    from 2 have dist: "distinct (map fst defs)" by (simp add: d)
    show ?case
      using Cons.IH(2) [OF dist rest] execute_create(3) [OF first] by simp
  next
    case 3
    then obtain mid where first: "execute (Create_table_if_not_exists n t) db = Inr mid"
      and rest: "run_steps (map (\<lambda>(n, t). execute (Create_table_if_not_exists n t)) defs) mid = Inr db'"
      by (auto simp: d split: sum.splits)
    from 3 have dist: "distinct (map fst defs)" and fresh: "n \<notin> fst ` set defs"
      by (auto simp: d)
    have later: "\<forall>k \<in> fst ` set defs. objects mid k \<noteq> Some Index"
      using Cons.IH(3) [OF dist rest] .
    have same: "k \<noteq> n \<Longrightarrow> objects mid k = objects db k" for k
      using execute_create(1) [OF first] by (auto split: option.splits)
    show ?case
    proof
      fix k assume "k \<in> fst ` set (d # defs)"
      then consider "k = n" | "k \<in> fst ` set defs" by (auto simp: d)
      then show "objects db k \<noteq> Some Index"
      proof cases
        case 1
        then show ?thesis using execute_create(4) [OF first] by simp
      next
        case 2
        with fresh have "k \<noteq> n" by blast
        with same have "objects mid k = objects db k" by blast
        with later 2 show ?thesis by auto
      qed
    qed
  }
qed

lemma prepare_tables_unfold:
  "prepare_tables db =
     (case execute (Pragma ''journal_mode'' ''WAL'') db of
        Inl e \<Rightarrow> Inl e
      | Inr db1 \<Rightarrow>
          run_steps (map (\<lambda>(n, t). execute (Create_table_if_not_exists n t)) fixed_schema) db1)"
  by (simp add: prepare_tables_def fixed_schema_def split: sum.splits)

lemma distinct_fixed_schema: "distinct (map fst fixed_schema)"
  by (simp add: fixed_schema_def)

lemma create_all_ok:
  assumes "distinct (map fst defs)" and "available db"
    and "\<forall>n \<in> fst ` set defs. objects db n \<noteq> Some Index"
  shows "\<exists>db'. run_steps (map (\<lambda>(n, t). execute (Create_table_if_not_exists n t)) defs) db = Inr db'"
  using assms
proof (induction defs arbitrary: db)
  case Nil
  then show ?case by simp
next
  case (Cons d defs)
  obtain n t where d: "d = (n, t)" by (cases d)
  from Cons.prems have dist: "distinct (map fst defs)" and fresh: "n \<notin> fst ` set defs"
    and here: "objects db n \<noteq> Some Index"
    by (auto simp: d)
  from execute_create_ok [OF Cons.prems(2) here]
  obtain mid where first: "execute (Create_table_if_not_exists n t) db = Inr mid"
    by blast
  have same: "k \<noteq> n \<Longrightarrow> objects mid k = objects db k" for k
    using execute_create(1) [OF first] by (auto split: option.splits)
  have later: "\<forall>k \<in> fst ` set defs. objects mid k \<noteq> Some Index"
  proof
    fix k assume k: "k \<in> fst ` set defs"
    with fresh have "k \<noteq> n" by blast
    with same have "objects mid k = objects db k" by blast
    moreover from k Cons.prems(3) have "objects db k \<noteq> Some Index" by (auto simp: d)
    ultimately show "objects mid k \<noteq> Some Index" by simp
  qed
  from Cons.IH [OF dist execute_create(2) [OF first] later]
  obtain db' where "run_steps (map (\<lambda>(n, t). execute (Create_table_if_not_exists n t)) defs) mid =
      Inr db'"
    by blast
  with first show ?case by (auto simp: d)
qed

lemma execute_pragma:
  "execute (Pragma k v) db =
     (if available db then Inr (db\<lparr>pragmas := (pragmas db)(k \<mapsto> v)\<rparr>)
      else Inl (Raised OSError ''unable to open database file''))"
  by (simp add: execute_def)

lemma fixed_schema_names:
  "fst ` set fixed_schema = {''banks'', ''contracts'', ''interest_rates'', ''macros'', ''errors''}"
  by (simp add: fixed_schema_def)

lemma dom_map_option_comp: "dom (map_option f \<circ> m) = dom m"
  by (auto simp: dom_def)

lemma prepare_tables_objects:
  assumes "prepare_tables db = Inr db'"
  shows "objects db' = (map_option Table \<circ> map_of fixed_schema) ++ objects db"
proof -
  from assms have avail: "available db"
    by (auto simp: prepare_tables_unfold execute_pragma split: if_splits)
  let ?db1 = "db\<lparr>pragmas := (pragmas db)(''journal_mode'' \<mapsto> ''WAL'')\<rparr>"
  from assms avail have "run_steps
      (map (\<lambda>(n, t). execute (Create_table_if_not_exists n t)) fixed_schema) ?db1 = Inr db'"
    by (simp add: prepare_tables_unfold execute_pragma)
  from create_all(1) [OF distinct_fixed_schema this] show ?thesis by simp
qed

subsection \<open>Composing and sending\<close>

lemma issubclass_SMTPResponseException [simp]: "issubclass SMTPResponseException SMTPException"
  by (simp add: issubclass_def eval_nat_numeral)

lemma compose_empty:
  "compose svc job True fs =
     (Inr \<lparr>header_from = sender (mail_info job), header_to = recipients (mail_info job),
           header_date = formatdate svc, header_subject = subject (mail_info job),
           parts = [Html_text (No_orders_body (subject (mail_info job))
                      (short (t_start (t_range job))) (short (t_end (t_range job))))]\<rparr>, fs)"
  by (simp add: compose_def Let_def)

lemma compose_full:
  assumes "files fs (report_path (mail_info job)) = Some report"
    and "screenshot_folder (mail_info job) \<in> folders fs"
  shows "\<exists>msg fs'. compose svc job False fs = (Inr msg, fs') \<and>
     parts msg =
       [Attachment (path_name (report_path (mail_info job))) report,
        Attachment (''screenshots_'' @ short (t_end (t_range job)) @ ''.zip'')
          (Zip_of (screenshot_folder (mail_info job))),
        Html_text (Orders_body (subject (mail_info job))
          (short (t_start (t_range job))) (short (t_end (t_range job))))]"
  using assms
  by (simp add: compose_def attach_file_def make_archive_def move_def Let_def)

lemma send_mail_result:
  assumes "compose svc job is_empty fs = (Inr msg, fs')"
  shows "fst (send_mail svc job is_empty fs) =
     (case smtp_session svc (mail_info job) msg of
        Inl e \<Rightarrow> if isinstance e SMTPException then Inr False else Inl e
      | Inr accepted \<Rightarrow> Inr accepted)"
  using assms by (simp add: send_mail_def split: sum.splits)

section \<open>Claims\<close>

text \<open>
  C1, as amended. A call that returns has its result returned unchanged. A call that
  raises \<open>KeyboardInterrupt\<close> has it raised again at once: nothing is logged and nothing
  is sent. A call that raises any other exception has it logged; without a bot under
  the keyword \<open>bot\<close> the exception is then raised again; with a bot, and once the
  screenshot is taken, the traceback (after \<open>@DEVELOPER\<close> when that is set) and the
  screenshot are sent through the bot, and when the send returns the exception is raised
  again unchanged.
\<close>

theorem handle_error_spec:
  "(func args kwargs (outside h) = (Inr result, u1) \<longrightarrow>
      handle_error sur func args kwargs h = (Inr result, h\<lparr>outside := u1\<rparr>)) \<and>
   (func args kwargs (outside h) = (Inl error, u1) \<and> isinstance error KeyboardInterrupt \<longrightarrow>
      handle_error sur func args kwargs h = (Inl error, h\<lparr>outside := u1\<rparr>)) \<and>
   (func args kwargs (outside h) = (Inl error, u1) \<and> \<not> isinstance error KeyboardInterrupt \<longrightarrow>
      logged (snd (handle_error sur func args kwargs h)) = logged h @ [error] \<and>
      (kwargs_get kwargs ''bot'' = None \<longrightarrow>
         handle_error sur func args kwargs h =
           (Inl error, h\<lparr>logged := logged h @ [error], outside := u1\<rparr>)) \<and>
      (\<forall>b media u2. kwargs_get kwargs ''bot'' = Some b \<and> grab sur u1 = (Inr media, u2) \<longrightarrow>
         sent (snd (handle_error sur func args kwargs h)) =
           sent h @ [(b, error_text sur error, media)] \<and>
         (\<forall>ok u3. send_message sur b (error_text sur error) media u2 = (Inr ok, u3) \<longrightarrow>
            handle_error sur func args kwargs h =
              (Inl error, h\<lparr>logged := logged h @ [error],
                             sent := sent h @ [(b, error_text sur error, media)],
                             outside := u3\<rparr>))))"
proof (intro conjI impI allI)
  assume "func args kwargs (outside h) = (Inr result, u1)"
  then show "handle_error sur func args kwargs h = (Inr result, h\<lparr>outside := u1\<rparr>)"
    by (simp add: handle_error_def)
next
  assume "func args kwargs (outside h) = (Inl error, u1) \<and> isinstance error KeyboardInterrupt"
  then show "handle_error sur func args kwargs h = (Inl error, h\<lparr>outside := u1\<rparr>)"
    by (simp add: handle_error_def)
next
  assume "func args kwargs (outside h) = (Inl error, u1) \<and> \<not> isinstance error KeyboardInterrupt"
  then show "logged (snd (handle_error sur func args kwargs h)) = logged h @ [error]"
    by (simp add: handle_error_def Let_def split: option.splits prod.splits sum.splits)
next
  assume "func args kwargs (outside h) = (Inl error, u1) \<and> \<not> isinstance error KeyboardInterrupt"
    and "kwargs_get kwargs ''bot'' = None"
  then show "handle_error sur func args kwargs h =
      (Inl error, h\<lparr>logged := logged h @ [error], outside := u1\<rparr>)"
    by (simp add: handle_error_def Let_def)
next
  fix b media u2
  assume "func args kwargs (outside h) = (Inl error, u1) \<and> \<not> isinstance error KeyboardInterrupt"
    and "kwargs_get kwargs ''bot'' = Some b \<and> grab sur u1 = (Inr media, u2)"
  then show "sent (snd (handle_error sur func args kwargs h)) =
      sent h @ [(b, error_text sur error, media)]"
    by (simp add: handle_error_def Let_def split: prod.splits sum.splits)
next
  fix b media u2 ok u3
  assume "func args kwargs (outside h) = (Inl error, u1) \<and> \<not> isinstance error KeyboardInterrupt"
    and "kwargs_get kwargs ''bot'' = Some b \<and> grab sur u1 = (Inr media, u2)"
    and "send_message sur b (error_text sur error) media u2 = (Inr ok, u3)"
  then show "handle_error sur func args kwargs h =
      (Inl error, h\<lparr>logged := logged h @ [error],
                     sent := sent h @ [(b, error_text sur error, media)],
                     outside := u3\<rparr>)"
    by (simp add: handle_error_def Let_def)
qed

theorem handle_error_spec_witness:
  "(handle_error sample_surroundings failing_job () [''bot'' \<mapsto> Some ''bot''] quiet_host =
     (Inl (Raised ValueError ''bad order''),
      \<lparr>logged = [Raised ValueError ''bad order''],
       sent = [(''bot'', ''@dev Traceback (most recent call last): ...'', ''screen.jpeg'')],
       outside = ()\<rparr>) \<and>
   handle_error sample_surroundings failing_job () Map.empty quiet_host =
     (Inl (Raised ValueError ''bad order''),
      \<lparr>logged = [Raised ValueError ''bad order''], sent = [], outside = ()\<rparr>)) \<and>
   (handle_error sample_surroundings finished_job () [''bot'' \<mapsto> Some ''bot''] quiet_host =
     (Inr 42, quiet_host) \<and>
   handle_error sample_surroundings interrupted_job () Map.empty quiet_host =
     (Inl (Raised KeyboardInterrupt []), quiet_host))"
proof -
  have earlier:
    "handle_error sample_surroundings failing_job () [''bot'' \<mapsto> Some ''bot''] quiet_host =
       (Inl (Raised ValueError ''bad order''),
        \<lparr>logged = [Raised ValueError ''bad order''],
         sent = [(''bot'', ''@dev Traceback (most recent call last): ...'', ''screen.jpeg'')],
         outside = ()\<rparr>) \<and>
     handle_error sample_surroundings failing_job () Map.empty quiet_host =
       (Inl (Raised ValueError ''bad order''),
        \<lparr>logged = [Raised ValueError ''bad order''], sent = [], outside = ()\<rparr>)"
  proof -
    have fails: "failing_job () kw (outside quiet_host) = (Inl (Raised ValueError ''bad order''), ())"
      for kw
      by (simp add: failing_job_def)
    have other: "\<not> isinstance (Raised ValueError ''bad order'') KeyboardInterrupt"
      by (simp add: issubclass_def eval_nat_numeral)
    have bot: "kwargs_get [''bot'' \<mapsto> Some ''bot''] ''bot'' = Some ''bot''"
      and none: "kwargs_get (Map.empty :: string kwargs) ''bot'' = None"
      by (simp_all add: kwargs_get_def)
    have shot: "grab sample_surroundings () = (Inr ''screen.jpeg'', ())"
      and delivered: "send_message sample_surroundings b m i () = (Inr True, ())"
      and prefixed: "error_text sample_surroundings e = ''@dev Traceback (most recent call last): ...''"
      for b m i e
      by (simp_all add: sample_surroundings_def error_text_def)
    note with_bot = handle_error_spec [where func = failing_job and args = "()"
        and kwargs = "[''bot'' \<mapsto> Some ''bot'']" and h = quiet_host and sur = sample_surroundings
        and error = "Raised ValueError ''bad order''" and ?u1.0 = "()",
        THEN conjunct2, THEN conjunct2, THEN mp, OF conjI [OF fails other],
        THEN conjunct2, THEN conjunct2, rule_format, OF conjI [OF bot shot],
        THEN conjunct2, rule_format, OF delivered]
    note without = handle_error_spec [where func = failing_job and args = "()"
        and kwargs = "Map.empty" and h = quiet_host and sur = sample_surroundings
        and error = "Raised ValueError ''bad order''" and ?u1.0 = "()",
        THEN conjunct2, THEN conjunct2, THEN mp, OF conjI [OF fails other],
        THEN conjunct2, THEN conjunct1, THEN mp, OF none]
    show ?thesis
      using with_bot without by (simp add: quiet_host_def prefixed)
  qed
  have further:
    "handle_error sample_surroundings finished_job () [''bot'' \<mapsto> Some ''bot''] quiet_host =
       (Inr 42, quiet_host) \<and>
     handle_error sample_surroundings interrupted_job () Map.empty quiet_host =
       (Inl (Raised KeyboardInterrupt []), quiet_host)"
  proof -
    have returns: "finished_job () kw (outside quiet_host) = (Inr 42, ())" for kw
      by (simp add: finished_job_def)
    have stopped: "interrupted_job () kw (outside quiet_host) = (Inl (Raised KeyboardInterrupt []), ())"
      for kw
      by (simp add: interrupted_job_def)
    have interrupt: "isinstance (Raised KeyboardInterrupt []) KeyboardInterrupt"
      by simp
    have same: "quiet_host\<lparr>outside := ()\<rparr> = quiet_host"
      by (simp add: quiet_host_def)
    note normal = handle_error_spec [where func = finished_job and args = "()"
        and kwargs = "[''bot'' \<mapsto> Some ''bot'']" and h = quiet_host and sur = sample_surroundings
        and result = 42 and ?u1.0 = "()", THEN conjunct1, THEN mp, OF returns, unfolded same]
    note bypass = handle_error_spec [where func = interrupted_job and args = "()"
        and kwargs = "Map.empty" and h = quiet_host and sur = sample_surroundings
        and error = "Raised KeyboardInterrupt []" and ?u1.0 = "()",
        THEN conjunct2, THEN conjunct1, THEN mp, OF conjI [OF stopped interrupt], unfolded same]
    from normal bypass show ?thesis by simp
  qed
  from earlier further show ?thesis by (rule conjI)
qed

text \<open>
  C1 as written has every exception logged, and sent when a bot is present. A
  \<open>KeyboardInterrupt\<close> is caught by the first handler, which raises it again and does
  nothing else: with a bot present, nothing is logged and nothing is sent.
\<close>

theorem handle_error_interrupt_counterexample:
  "handle_error sample_surroundings interrupted_job () [''bot'' \<mapsto> Some ''bot''] quiet_host =
     (Inl (Raised KeyboardInterrupt []), \<lparr>logged = [], sent = [], outside = ()\<rparr>)"
  by (simp add: handle_error_def interrupted_job_def quiet_host_def kwargs_get_def
      issubclass_def eval_nat_numeral)

text \<open>
  C2, as amended. For every row loaded from \<open>interest_rates\<close> whose nine rate columns
  hold REAL numbers, constructing the \<open>InterestRate\<close> multiplies exactly the nine
  rate fields by 100 and leaves \<open>contract_id\<close>, \<open>subsid_term\<close> and the eight date
  fields equal to the values of the row.
\<close>

theorem load_scales_rates:
  assumes "find (\<lambda>r. col_id r = Text cid) interest_rates = Some row"
    and "col_nominal_rate row = Real x1"
    and "col_rate_one_two_three_year row = Real x2"
    and "col_rate_four_year row = Real x3"
    and "col_rate_five_year row = Real x4"
    and "col_rate_six_seven_year row = Real x5"
    and "col_rate_fee_one_two_three_year row = Real x6"
    and "col_rate_fee_four_year row = Real x7"
    and "col_rate_fee_five_year row = Real x8"
    and "col_rate_fee_six_seven_year row = Real x9"
  shows "load interest_rates cid =
    Inr \<lparr>contract_id = col_id row, subsid_term = col_subsid_term row,
         nominal_rate = Real (x1 * 100), rate_one_two_three_year = Real (x2 * 100),
         rate_four_year = Real (x3 * 100), rate_five_year = Real (x4 * 100),
         rate_six_seven_year = Real (x5 * 100), rate_fee_one_two_three_year = Real (x6 * 100),
         rate_fee_four_year = Real (x7 * 100), rate_fee_five_year = Real (x8 * 100),
         rate_fee_six_seven_year = Real (x9 * 100),
         start_date_one_two_three_year = col_start_date_one_two_three_year row,
         end_date_one_two_three_year = col_end_date_one_two_three_year row,
         start_date_four_year = col_start_date_four_year row,
         end_date_four_year = col_end_date_four_year row,
         start_date_five_year = col_start_date_five_year row,
         end_date_five_year = col_end_date_five_year row,
         start_date_six_seven_year = col_start_date_six_seven_year row,
         end_date_six_seven_year = col_end_date_six_seven_year row\<rparr>"
proof -
  have "load interest_rates cid = InterestRate_init (select_rate row)"
    using assms(1) by (rule load_first)
  also have "\<dots> = InterestRate_post_init
      \<lparr>contract_id = col_id row, subsid_term = col_subsid_term row,
       nominal_rate = Real x1, rate_one_two_three_year = Real x2, rate_four_year = Real x3,
       rate_five_year = Real x4, rate_six_seven_year = Real x5,
       rate_fee_one_two_three_year = Real x6, rate_fee_four_year = Real x7,
       rate_fee_five_year = Real x8, rate_fee_six_seven_year = Real x9,
       start_date_one_two_three_year = col_start_date_one_two_three_year row,
       end_date_one_two_three_year = col_end_date_one_two_three_year row,
       start_date_four_year = col_start_date_four_year row,
       end_date_four_year = col_end_date_four_year row,
       start_date_five_year = col_start_date_five_year row,
       end_date_five_year = col_end_date_five_year row,
       start_date_six_seven_year = col_start_date_six_seven_year row,
       end_date_six_seven_year = col_end_date_six_seven_year row\<rparr>"
    unfolding select_rate_def InterestRate_init_19 using assms(2-10) by simp
  also have "\<dots> = Inr \<lparr>contract_id = col_id row, subsid_term = col_subsid_term row,
         nominal_rate = Real (x1 * 100), rate_one_two_three_year = Real (x2 * 100),
         rate_four_year = Real (x3 * 100), rate_five_year = Real (x4 * 100),
         rate_six_seven_year = Real (x5 * 100), rate_fee_one_two_three_year = Real (x6 * 100),
         rate_fee_four_year = Real (x7 * 100), rate_fee_five_year = Real (x8 * 100),
         rate_fee_six_seven_year = Real (x9 * 100),
         start_date_one_two_three_year = col_start_date_one_two_three_year row,
         end_date_one_two_three_year = col_end_date_one_two_three_year row,
         start_date_four_year = col_start_date_four_year row,
         end_date_four_year = col_end_date_four_year row,
         start_date_five_year = col_start_date_five_year row,
         end_date_five_year = col_end_date_five_year row,
         start_date_six_seven_year = col_start_date_six_seven_year row,
         end_date_six_seven_year = col_end_date_six_seven_year row\<rparr>"
    by (subst InterestRate_post_init_Real) simp_all
  finally show ?thesis .
qed

theorem load_scales_rates_witness:
  "load [sample_rate_row] ''C-1'' =
    Inr \<lparr>contract_id = Text ''C-1'', subsid_term = Integer 36,
         nominal_rate = Real 21, rate_one_two_three_year = Real 7,
         rate_four_year = Real 8, rate_five_year = Real 9,
         rate_six_seven_year = Real 10, rate_fee_one_two_three_year = Real 14,
         rate_fee_four_year = Real 13, rate_fee_five_year = Real 12,
         rate_fee_six_seven_year = Real 11,
         start_date_one_two_three_year = Text ''2024-01-01'',
         end_date_one_two_three_year = Text ''2026-12-31'',
         start_date_four_year = Null, end_date_four_year = Null,
         start_date_five_year = Null, end_date_five_year = Null,
         start_date_six_seven_year = Null, end_date_six_seven_year = Null\<rparr>"
  using load_scales_rates [of "''C-1''" "[sample_rate_row]" sample_rate_row
      "21 / 100" "7 / 100" "8 / 100" "9 / 100" "10 / 100" "14 / 100" "13 / 100" "12 / 100" "11 / 100"]
  by (simp add: sample_rate_row_def)

text \<open>
  C2 as written covers every row of the table. A row whose \<open>nominal_rate\<close> is
  NULL, which the schema allows, builds no \<open>InterestRate\<close>: the first statement of
  \<open>__post_init__\<close> raises \<open>TypeError\<close>.
\<close>

theorem load_null_rate_counterexample:
  "load [sample_rate_row\<lparr>col_nominal_rate := Null\<rparr>] ''C-1'' =
     Inl (Raised TypeError ''unsupported operand type(s) for *=: NoneType and int'')"
  by (simp add: load_def query_rates_def select_rate_def sample_rate_row_def
      InterestRate_init_def InterestRate_post_init_def imul_100_def mul_100_def)

text \<open>
  C3. \<open>convert_date\<close> leaves a field that holds a \<open>Date\<close> unchanged, replaces a
  datetime by \<open>Date.to_date\<close> of it (long form \<open>%d.%m.%Y\<close>, short form \<open>%d.%m.%y\<close>),
  replaces a string by the \<open>Date\<close> of the datetime it parses to with the given format,
  and raises \<open>ValueError\<close> for a value of any other type. The constructor of each of the
  eight order dataclasses succeeds exactly when each of its date fields can be
  normalized in this way with the format \<open>%d.%m.%y\<close>; the object it builds then holds
  the normalized \<open>Date\<close> in every date field and the argument as given in every other
  field.
\<close>

theorem convert_date_spec:
  "((obj :: 'f obj) f = Some (PyDate d) \<longrightarrow> convert_date strptime f fmt obj = Inr obj) \<and>
   (obj f = Some (PyDatetime t) \<longrightarrow>
      convert_date strptime f fmt obj =
        Inr (obj(f \<mapsto> PyDate \<lparr>dt = t, long = strftime_dmY t, short = strftime_dmy t\<rparr>))) \<and>
   (obj f = Some (PyStr s) \<and> strptime s fmt = Inr t \<longrightarrow>
      convert_date strptime f fmt obj =
        Inr (obj(f \<mapsto> PyDate \<lparr>dt = t, long = strftime_dmY t, short = strftime_dmy t\<rparr>))) \<and>
   (obj f = Some v \<and> (\<forall>x. v \<noteq> PyDate x) \<and> (\<forall>x. v \<noteq> PyDatetime x) \<and> (\<forall>x. v \<noteq> PyStr x) \<longrightarrow>
      (\<exists>m. convert_date strptime f fmt obj = Inl (Raised ValueError m))) \<and>
   (\<forall>(flds, post_init) \<in> set (order_classes strptime). \<forall>args (obj' :: 'f obj).
      length (filter (\<lambda>f. \<not> has_default f) flds) \<le> length args \<and> length args \<le> length flds \<longrightarrow>
      (dataclass_init flds post_init args = Inr obj' \<longleftrightarrow>
         (\<forall>g. g \<in> set (date_fields flds) \<longrightarrow>
            (\<exists>v v'. bind_args flds args g = Some v \<and>
               normalized strptime ''%d.%m.%y'' v = Some v' \<and> obj' g = Some v')) \<and>
         (\<forall>g. g \<notin> set (date_fields flds) \<longrightarrow> obj' g = bind_args flds args g)))"
proof (intro conjI)
  show "obj f = Some (PyDate d) \<longrightarrow> convert_date strptime f fmt obj = Inr obj"
    by (simp add: convert_date_def)
  show "obj f = Some (PyDatetime t) \<longrightarrow>
      convert_date strptime f fmt obj =
        Inr (obj(f \<mapsto> PyDate \<lparr>dt = t, long = strftime_dmY t, short = strftime_dmy t\<rparr>))"
    by (simp add: convert_date_def to_date_def)
  show "obj f = Some (PyStr s) \<and> strptime s fmt = Inr t \<longrightarrow>
      convert_date strptime f fmt obj =
        Inr (obj(f \<mapsto> PyDate \<lparr>dt = t, long = strftime_dmY t, short = strftime_dmy t\<rparr>))"
    by (simp add: convert_date_def to_date_def)
  show "obj f = Some v \<and> (\<forall>x. v \<noteq> PyDate x) \<and> (\<forall>x. v \<noteq> PyDatetime x) \<and> (\<forall>x. v \<noteq> PyStr x) \<longrightarrow>
      (\<exists>m. convert_date strptime f fmt obj = Inl (Raised ValueError m))"
    by (cases v) (simp_all add: convert_date_def)
  show "\<forall>(flds, post_init) \<in> set (order_classes strptime). \<forall>args (obj' :: 'f obj).
      length (filter (\<lambda>f. \<not> has_default f) flds) \<le> length args \<and> length args \<le> length flds \<longrightarrow>
      (dataclass_init flds post_init args = Inr obj' \<longleftrightarrow>
         (\<forall>g. g \<in> set (date_fields flds) \<longrightarrow>
            (\<exists>v v'. bind_args flds args g = Some v \<and>
               normalized strptime ''%d.%m.%y'' v = Some v' \<and> obj' g = Some v')) \<and>
         (\<forall>g. g \<notin> set (date_fields flds) \<longrightarrow> obj' g = bind_args flds args g))"
  proof (intro ballI)
    fix c :: "field list \<times> ('f obj \<Rightarrow> py_exc + 'f obj)"
    assume c: "c \<in> set (order_classes strptime)"
    obtain flds post_init where eq: "c = (flds, post_init)"
      by (cases c)
    show "case c of (flds, post_init) \<Rightarrow> \<forall>args obj'.
      length (filter (\<lambda>f. \<not> has_default f) flds) \<le> length args \<and> length args \<le> length flds \<longrightarrow>
      (dataclass_init flds post_init args = Inr obj' \<longleftrightarrow>
         (\<forall>g. g \<in> set (date_fields flds) \<longrightarrow>
            (\<exists>v v'. bind_args flds args g = Some v \<and>
               normalized strptime ''%d.%m.%y'' v = Some v' \<and> obj' g = Some v')) \<and>
         (\<forall>g. g \<notin> set (date_fields flds) \<longrightarrow> obj' g = bind_args flds args g))"
      unfolding eq prod.case
      using order_constructor [OF c [unfolded eq]] by blast
  qed
qed

theorem convert_date_spec_witness:
  "(convert_date sample_strptime ''withdraw_date'' ''%d.%m.%y''
     [''withdraw_date'' \<mapsto> PyStr ''07.03.24'' :: rat py_value] =
     Inr [''withdraw_date'' \<mapsto>
       PyDate \<lparr>dt = \<lparr>year = 2024, month = 3, day = 7, hour = 0, minute = 0, second = 0,
                     microsecond = 0\<rparr>,
              long = ''07.03.2024'', short = ''07.03.24''\<rparr>] \<and>
   (\<exists>m. convert_date sample_strptime ''withdraw_date'' ''%d.%m.%y''
     [''withdraw_date'' \<mapsto> PyInt 7 :: rat py_value] = Inl (Raised ValueError m)) \<and>
   dataclass_init VacationWithdrawOrder_fields (VacationWithdrawOrder_post_init sample_strptime)
     sample_withdraw_args =
     Inr ((bind_args VacationWithdrawOrder_fields sample_withdraw_args)
       (''withdraw_date'' \<mapsto>
          PyDate \<lparr>dt = \<lparr>year = 2024, month = 3, day = 7, hour = 0, minute = 0, second = 0,
                        microsecond = 0\<rparr>,
                 long = ''07.03.2024'', short = ''07.03.24''\<rparr>))) \<and>
   (convert_date sample_strptime ''end_date'' ''%d.%m.%y''
     [''end_date'' \<mapsto> PyDate \<lparr>dt = \<lparr>year = 2024, month = 3, day = 7, hour = 0, minute = 0,
        second = 0, microsecond = 0\<rparr>, long = ''07.03.2024'', short = ''07.03.24''\<rparr> :: rat py_value] =
     Inr [''end_date'' \<mapsto> PyDate \<lparr>dt = \<lparr>year = 2024, month = 3, day = 7, hour = 0, minute = 0,
        second = 0, microsecond = 0\<rparr>, long = ''07.03.2024'', short = ''07.03.24''\<rparr>] \<and>
   convert_date sample_strptime ''end_date'' ''%d.%m.%y''
     [''end_date'' \<mapsto> PyDatetime \<lparr>year = 2024, month = 3, day = 7, hour = 9, minute = 30,
        second = 0, microsecond = 0\<rparr> :: rat py_value] =
     Inr [''end_date'' \<mapsto> PyDate \<lparr>dt = \<lparr>year = 2024, month = 3, day = 7, hour = 9, minute = 30,
        second = 0, microsecond = 0\<rparr>, long = ''07.03.2024'', short = ''07.03.24''\<rparr>])"
proof -
  have earlier:
    "convert_date sample_strptime ''withdraw_date'' ''%d.%m.%y''
       [''withdraw_date'' \<mapsto> PyStr ''07.03.24'' :: rat py_value] =
       Inr [''withdraw_date'' \<mapsto>
         PyDate \<lparr>dt = \<lparr>year = 2024, month = 3, day = 7, hour = 0, minute = 0, second = 0,
                       microsecond = 0\<rparr>,
                long = ''07.03.2024'', short = ''07.03.24''\<rparr>] \<and>
     (\<exists>m. convert_date sample_strptime ''withdraw_date'' ''%d.%m.%y''
       [''withdraw_date'' \<mapsto> PyInt 7 :: rat py_value] = Inl (Raised ValueError m)) \<and>
     dataclass_init VacationWithdrawOrder_fields (VacationWithdrawOrder_post_init sample_strptime)
       sample_withdraw_args =
       Inr ((bind_args VacationWithdrawOrder_fields sample_withdraw_args)
         (''withdraw_date'' \<mapsto>
            PyDate \<lparr>dt = \<lparr>year = 2024, month = 3, day = 7, hour = 0, minute = 0, second = 0,
                          microsecond = 0\<rparr>,
                   long = ''07.03.2024'', short = ''07.03.24''\<rparr>))"
  proof -
    let ?t = "\<lparr>year = 2024, month = 3, day = 7, hour = 0, minute = 0, second = 0,
        microsecond = 0\<rparr>"
    have parsed: "sample_strptime ''07.03.24'' ''%d.%m.%y'' = Inr ?t"
      by (simp add: sample_strptime_def number_val_def digit_val_def)
    have long_form: "strftime_dmY ?t = ''07.03.2024''"
      by (simp add: strftime_dmY_def zfill_def dec_small dec_ge10 digit_char_def)
    have short_form: "strftime_dmy ?t = ''07.03.24''"
      by (simp add: strftime_dmy_def zfill_def dec_small dec_ge10 digit_char_def)
    have member: "(VacationWithdrawOrder_fields, VacationWithdrawOrder_post_init sample_strptime)
        \<in> set (order_classes sample_strptime :: (field list \<times> (rat obj \<Rightarrow> py_exc + rat obj)) list)"
      by (simp add: order_classes_def)
    have dates: "date_fields VacationWithdrawOrder_fields = [''withdraw_date'']"
      by (simp add: date_fields_def VacationWithdrawOrder_fields_def required_def optional_def)
    have arity: "length (filter (\<lambda>f. \<not> has_default f) VacationWithdrawOrder_fields)
          \<le> length sample_withdraw_args \<and>
        length sample_withdraw_args \<le> length VacationWithdrawOrder_fields"
      by (simp add: VacationWithdrawOrder_fields_def required_def optional_def
          sample_withdraw_args_def)
    have given: "bind_args VacationWithdrawOrder_fields sample_withdraw_args ''withdraw_date'' =
        Some (PyStr ''07.03.24'')"
      by (simp add: bind_args_def VacationWithdrawOrder_fields_def required_def optional_def
          sample_withdraw_args_def)
    have norm: "normalized sample_strptime ''%d.%m.%y'' (PyStr ''07.03.24'' :: rat py_value) =
        Some (PyDate \<lparr>dt = ?t, long = ''07.03.2024'', short = ''07.03.24''\<rparr>)"
      by (simp add: normalized_def parsed long_form short_form)
    note spec = convert_date_spec [where obj = "[''withdraw_date'' \<mapsto> PyStr ''07.03.24''] :: rat obj"
        and f = "''withdraw_date''" and strptime = sample_strptime and fmt = "''%d.%m.%y''"
        and s = "''07.03.24''" and t = ?t and v = "PyStr ''07.03.24''"
        and d = "\<lparr>dt = ?t, long = [], short = []\<rparr>"]
    note bad = convert_date_spec [where obj = "[''withdraw_date'' \<mapsto> PyInt 7] :: rat obj"
        and f = "''withdraw_date''" and strptime = sample_strptime and fmt = "''%d.%m.%y''"
        and v = "PyInt 7" and s = "[]" and t = ?t
        and d = "\<lparr>dt = ?t, long = [], short = []\<rparr>"]
    have first: "convert_date sample_strptime ''withdraw_date'' ''%d.%m.%y''
       [''withdraw_date'' \<mapsto> PyStr ''07.03.24'' :: rat py_value] =
       Inr [''withdraw_date'' \<mapsto> PyDate \<lparr>dt = ?t, long = ''07.03.2024'', short = ''07.03.24''\<rparr>]"
      using spec parsed long_form short_form by simp
    have second: "\<exists>m. convert_date sample_strptime ''withdraw_date'' ''%d.%m.%y''
       [''withdraw_date'' \<mapsto> PyInt 7 :: rat py_value] = Inl (Raised ValueError m)"
      using bad by simp
    have third: "dataclass_init VacationWithdrawOrder_fields
       (VacationWithdrawOrder_post_init sample_strptime) sample_withdraw_args =
       Inr ((bind_args VacationWithdrawOrder_fields sample_withdraw_args)
         (''withdraw_date'' \<mapsto> PyDate \<lparr>dt = ?t, long = ''07.03.2024'', short = ''07.03.24''\<rparr>))"
      using spec member arity given norm dates by auto
    from first second third show ?thesis by blast
  qed
  have further:
    "convert_date sample_strptime ''end_date'' ''%d.%m.%y''
       [''end_date'' \<mapsto> PyDate \<lparr>dt = \<lparr>year = 2024, month = 3, day = 7, hour = 0, minute = 0,
          second = 0, microsecond = 0\<rparr>, long = ''07.03.2024'', short = ''07.03.24''\<rparr> :: rat py_value] =
       Inr [''end_date'' \<mapsto> PyDate \<lparr>dt = \<lparr>year = 2024, month = 3, day = 7, hour = 0, minute = 0,
          second = 0, microsecond = 0\<rparr>, long = ''07.03.2024'', short = ''07.03.24''\<rparr>] \<and>
     convert_date sample_strptime ''end_date'' ''%d.%m.%y''
       [''end_date'' \<mapsto> PyDatetime \<lparr>year = 2024, month = 3, day = 7, hour = 9, minute = 30,
          second = 0, microsecond = 0\<rparr> :: rat py_value] =
       Inr [''end_date'' \<mapsto> PyDate \<lparr>dt = \<lparr>year = 2024, month = 3, day = 7, hour = 9, minute = 30,
          second = 0, microsecond = 0\<rparr>, long = ''07.03.2024'', short = ''07.03.24''\<rparr>]"
  proof -
    let ?t = "\<lparr>year = 2024, month = 3, day = 7, hour = 0, minute = 0, second = 0,
        microsecond = 0\<rparr>"
    let ?m = "\<lparr>year = 2024, month = 3, day = 7, hour = 9, minute = 30, second = 0,
        microsecond = 0\<rparr>"
    let ?d = "\<lparr>dt = ?t, long = ''07.03.2024'', short = ''07.03.24''\<rparr>"
    have morning_long: "strftime_dmY ?m = ''07.03.2024''"
      by (simp add: strftime_dmY_def zfill_def dec_small dec_ge10 digit_char_def)
    have morning_short: "strftime_dmy ?m = ''07.03.24''"
      by (simp add: strftime_dmy_def zfill_def dec_small dec_ge10 digit_char_def)
    note kept = convert_date_spec [where obj = "[''end_date'' \<mapsto> PyDate ?d] :: rat obj"
        and f = "''end_date''" and strptime = sample_strptime and fmt = "''%d.%m.%y''"
        and d = ?d, THEN conjunct1, THEN mp]
    note stamped = convert_date_spec [where obj = "[''end_date'' \<mapsto> PyDatetime ?m] :: rat obj"
        and f = "''end_date''" and strptime = sample_strptime and fmt = "''%d.%m.%y''"
        and t = ?m, THEN conjunct2, THEN conjunct1, THEN mp]
    have fourth: "convert_date sample_strptime ''end_date'' ''%d.%m.%y''
        [''end_date'' \<mapsto> PyDate ?d :: rat py_value] = Inr [''end_date'' \<mapsto> PyDate ?d]"
      by (rule kept) simp
    have fifth: "convert_date sample_strptime ''end_date'' ''%d.%m.%y''
        [''end_date'' \<mapsto> PyDatetime ?m :: rat py_value] =
        Inr [''end_date'' \<mapsto> PyDate \<lparr>dt = ?m, long = ''07.03.2024'', short = ''07.03.24''\<rparr>]"
      using stamped by (simp add: morning_long morning_short)
    from fourth fifth show ?thesis by blast
  qed
  from earlier further show ?thesis by (rule conjI)
qed

text \<open>
  C4. When the steps up to the wait raise nothing and the 10-second wait for the
  \<open>Delete\<close> button ends with \<open>False\<close>, \<open>find_project\<close> prints the not-found line and
  returns without an exception; so it does when the wait ends with \<open>True\<close> and no row of
  the result list qualifies. \<open>find_row\<close> returns \<open>None\<close> when no row qualifies, and
  otherwise the first row that does: the first row whose stripped text is not blank and
  has a similarity ratio with the project of at least 0.8. In particular, when the
  button is found disabled at every look (and looking does not turn the clock back), the
  wait ends after more than 10 seconds and \<open>find_project\<close> returns with the not-found
  line printed.
\<close>

theorem find_project_not_found:
  "(find_project_query tk contract w = (Inr u, w1) \<and>
      wait_for (is_enabled tk Delete_button) 10 (1 / 10) w1 = Some (Inr False, w2) \<longrightarrow>
      find_project tk contract w =
        Some (Inr (), w2\<lparr>env := (env w2)
          \<lparr>printed := printed (env w2) @ [Not_found (contract_id_of contract)]\<rparr>\<rparr>)) \<and>
   (find_project_query tk contract w = (Inr u, w1) \<and>
      wait_for (is_enabled tk Delete_button) 10 (1 / 10) w1 = Some (Inr True, w2) \<and>
      children tk Result_list w2 = (Inr rows, w3) \<and>
      (\<forall>row \<in> set rows. \<not> qualifies tk (project contract) row) \<longrightarrow>
      find_project tk contract w =
        Some (Inr (), w3\<lparr>env := (env w3)
          \<lparr>printed := printed (env w3) @ [Not_found (contract_id_of contract)]\<rparr>\<rparr>)) \<and>
   (children tk parent w = (Inr rows, w') \<longrightarrow>
      ((\<forall>row \<in> set rows. \<not> qualifies tk p row) \<longrightarrow>
         find_row tk parent p w = (Inr None, w')) \<and>
      (\<forall>i < length rows.
         qualifies tk p (rows ! i) \<and> (\<forall>j < i. \<not> qualifies tk p (rows ! j)) \<longrightarrow>
         fst (find_row tk parent p w) = Inr (Some (rows ! i)))) \<and>
   (find_project_query tk contract w = (Inr u, w1) \<and>
      (\<forall>s. clock s \<le> clock (snd (is_enabled tk Delete_button s))) \<and>
      (\<forall>k. fst (poll (is_enabled tk Delete_button) (1 / 10) w1 k) = Inr False) \<longrightarrow>
      (\<exists>late. 10 < clock late - clock w1 \<and>
         find_project tk contract w =
           Some (Inr (), late\<lparr>env := (env late)
             \<lparr>printed := printed (env late) @ [Not_found (contract_id_of contract)]\<rparr>\<rparr>)))"
proof (intro conjI impI)
  assume never: "find_project_query tk contract w = (Inr u, w1) \<and>
      (\<forall>s. clock s \<le> clock (snd (is_enabled tk Delete_button s))) \<and>
      (\<forall>k. fst (poll (is_enabled tk Delete_button) (1 / 10) w1 k) = Inr False)"
  have pos: "(0::rat) < 1 / 10" by simp
  from never have mono: "\<forall>s. clock s \<le> clock (snd (is_enabled tk Delete_button s))"
    by blast
  from wait_for_returns [OF pos mono, of w1 10] never
  obtain n where over: "10 < clock (snd (poll (is_enabled tk Delete_button) (1 / 10) w1 n)) - clock w1"
    and ended: "wait_for (is_enabled tk Delete_button) 10 (1 / 10) w1 =
      Some (poll (is_enabled tk Delete_button) (1 / 10) w1 n)"
    by blast
  from never have "fst (poll (is_enabled tk Delete_button) (1 / 10) w1 n) = Inr False"
    by blast
  then obtain late where last: "poll (is_enabled tk Delete_button) (1 / 10) w1 n = (Inr False, late)"
    by (cases "poll (is_enabled tk Delete_button) (1 / 10) w1 n") simp
  from ended last never have "find_project tk contract w =
      Some (Inr (), late\<lparr>env := (env late)
        \<lparr>printed := printed (env late) @ [Not_found (contract_id_of contract)]\<rparr>\<rparr>)"
    by (simp add: find_project_def print_def)
  moreover from over last have "10 < clock late - clock w1" by simp
  ultimately show "\<exists>late. 10 < clock late - clock w1 \<and>
         find_project tk contract w =
           Some (Inr (), late\<lparr>env := (env late)
             \<lparr>printed := printed (env late) @ [Not_found (contract_id_of contract)]\<rparr>\<rparr>)"
    by blast
next
  assume "find_project_query tk contract w = (Inr u, w1) \<and>
      wait_for (is_enabled tk Delete_button) 10 (1 / 10) w1 = Some (Inr False, w2)"
  then show "find_project tk contract w =
        Some (Inr (), w2\<lparr>env := (env w2)
          \<lparr>printed := printed (env w2) @ [Not_found (contract_id_of contract)]\<rparr>\<rparr>)"
    by (simp add: find_project_def print_def)
next
  assume h: "find_project_query tk contract w = (Inr u, w1) \<and>
      wait_for (is_enabled tk Delete_button) 10 (1 / 10) w1 = Some (Inr True, w2) \<and>
      children tk Result_list w2 = (Inr rows, w3) \<and>
      (\<forall>row \<in> set rows. \<not> qualifies tk (project contract) row)"
  then have "first_match tk (project contract) rows = None"
    by (simp add: first_match_None)
  with h have "find_project_open tk contract w2 =
      (Inr (), w3\<lparr>env := (env w3)
          \<lparr>printed := printed (env w3) @ [Not_found (contract_id_of contract)]\<rparr>\<rparr>)"
    by (simp add: find_project_open_def find_row_def and_then_def ret_def print_def)
  with h show "find_project tk contract w =
        Some (Inr (), w3\<lparr>env := (env w3)
          \<lparr>printed := printed (env w3) @ [Not_found (contract_id_of contract)]\<rparr>\<rparr>)"
    by (simp add: find_project_def)
next
  assume kids: "children tk parent w = (Inr rows, w')"
    and "\<forall>row \<in> set rows. \<not> qualifies tk p row"
  then have "first_match tk p rows = None"
    by (simp add: first_match_None)
  with kids show "find_row tk parent p w = (Inr None, w')"
    by (simp add: find_row_def and_then_def ret_def)
next
  assume kids: "children tk parent w = (Inr rows, w')"
  show "\<forall>i < length rows.
         qualifies tk p (rows ! i) \<and> (\<forall>j < i. \<not> qualifies tk p (rows ! j)) \<longrightarrow>
         fst (find_row tk parent p w) = Inr (Some (rows ! i))"
  proof (intro allI impI)
    fix i
    assume i: "i < length rows"
      and q: "qualifies tk p (rows ! i) \<and> (\<forall>j < i. \<not> qualifies tk p (rows ! j))"
    then have "\<exists>txt score. first_match tk p rows = Some (rows ! i, txt, score)"
      using first_match_Some [of tk p rows "rows ! i"] by blast
    then obtain shown score where "first_match tk p rows = Some (rows ! i, shown, score)"
      by blast
    with kids show "fst (find_row tk parent p w) = Inr (Some (rows ! i))"
      by (simp add: find_row_def and_then_def ret_def print_def)
  qed
qed

theorem find_project_not_found_witness:
  "find_project (sample_toolkit False) sample_contract sample_session =
     Some (Inr (), \<lparr>clock = 11, env = \<lparr>printed = [Not_found ''C-1''], gui = ()\<rparr>\<rparr>) \<and>
   find_project (sample_toolkit True) sample_contract sample_session =
     Some (Inr (), \<lparr>clock = 11, env = \<lparr>printed = [Not_found ''C-1''], gui = ()\<rparr>\<rparr>) \<and>
   find_row (sample_toolkit True) Result_list ''Brewery'' sample_session = (Inr None, sample_session) \<and>
   fst (find_row (sample_toolkit True) Result_list ''Dairy farm'' sample_session) =
     Inr (Some '' Dairy farm '') \<and>
   (\<exists>late. 10 < clock late - clock sample_session \<and>
      find_project (sample_toolkit False) sample_contract sample_session =
        Some (Inr (), late\<lparr>env := (env late)
          \<lparr>printed := printed (env late) @ [Not_found ''C-1'']\<rparr>\<rparr>))"
proof -
  let ?late = "\<lparr>clock = 11, env = \<lparr>printed = [], gui = ()\<rparr>\<rparr> :: (char, unit) session"
  let ?rows = "[''  '', ''Bakery'', '' Dairy farm '']"
  have query: "find_project_query (sample_toolkit b) sample_contract sample_session =
      (Inr (), sample_session)" for b
    by (simp add: find_project_query_def a_act_def and_then_def sample_toolkit_def)
  have wait: "wait_for (is_enabled (sample_toolkit b) Delete_button) 10 (1 / 10) sample_session =
      Some (Inr b, ?late)" for b
    unfolding wait_for_def
    by (subst wait_loop.simps) (simp add: sample_toolkit_def sample_session_def)
  have kids: "children (sample_toolkit True) el w = (Inr ?rows, w)" for el w
    by (simp add: sample_toolkit_def)
  have blank: "\<not> qualifies (sample_toolkit True) x ''  ''" for x
    by (simp add: qualifies_def strip_def sample_toolkit_def)
  have bakery: "qualifies (sample_toolkit True) x ''Bakery'' \<longleftrightarrow> x = ''Bakery''" for x
    by (simp add: qualifies_def strip_def sample_toolkit_def)
  have dairy: "qualifies (sample_toolkit True) x '' Dairy farm '' \<longleftrightarrow> x = ''Dairy farm''" for x
    by (simp add: qualifies_def strip_def sample_toolkit_def)
  have none: "\<forall>row \<in> set ?rows. \<not> qualifies (sample_toolkit True) ''Brewery'' row"
    by (simp add: blank bakery dairy)
  have first: "qualifies (sample_toolkit True) ''Dairy farm'' (?rows ! 2) \<and>
      (\<forall>j < 2. \<not> qualifies (sample_toolkit True) ''Dairy farm'' (?rows ! j))"
    by (simp add: blank bakery dairy less_Suc_eq numeral_2_eq_2)
  have proj: "project sample_contract = ''Brewery''" and cid: "contract_id_of sample_contract = ''C-1''"
    by (simp_all add: sample_contract_def)
  note timeout = find_project_not_found [where tk = "sample_toolkit False"
      and contract = sample_contract and w = sample_session and ?w1.0 = sample_session
      and ?w2.0 = ?late and u = "()" and parent = Result_list and rows = ?rows
      and w' = sample_session and ?w3.0 = ?late and p = "''Brewery''"]
  note shown = find_project_not_found [where tk = "sample_toolkit True"
      and contract = sample_contract and w = sample_session and ?w1.0 = sample_session
      and ?w2.0 = ?late and u = "()" and parent = Result_list and rows = ?rows
      and w' = sample_session and ?w3.0 = ?late and p = "''Brewery''"]
  note found = find_project_not_found [where tk = "sample_toolkit True"
      and contract = sample_contract and w = sample_session and ?w1.0 = sample_session
      and ?w2.0 = ?late and u = "()" and parent = Result_list and rows = ?rows
      and w' = sample_session and ?w3.0 = ?late and p = "''Dairy farm''"]
  have one: "find_project (sample_toolkit False) sample_contract sample_session =
     Some (Inr (), \<lparr>clock = 11, env = \<lparr>printed = [Not_found ''C-1''], gui = ()\<rparr>\<rparr>)"
  proof -
    have "find_project_query (sample_toolkit False) sample_contract sample_session =
        (Inr (), sample_session) \<and>
      wait_for (is_enabled (sample_toolkit False) Delete_button) 10 (1 / 10) sample_session =
        Some (Inr False, ?late)"
      using query [of False] wait [of False] by simp
    with timeout have "find_project (sample_toolkit False) sample_contract sample_session =
        Some (Inr (), ?late\<lparr>env := (env ?late)
          \<lparr>printed := printed (env ?late) @ [Not_found (contract_id_of sample_contract)]\<rparr>\<rparr>)"
      by blast
    then show ?thesis by (simp add: cid)
  qed
  have two: "find_project (sample_toolkit True) sample_contract sample_session =
     Some (Inr (), \<lparr>clock = 11, env = \<lparr>printed = [Not_found ''C-1''], gui = ()\<rparr>\<rparr>)"
  proof -
    have "find_project_query (sample_toolkit True) sample_contract sample_session =
        (Inr (), sample_session) \<and>
      wait_for (is_enabled (sample_toolkit True) Delete_button) 10 (1 / 10) sample_session =
        Some (Inr True, ?late) \<and>
      children (sample_toolkit True) Result_list ?late = (Inr ?rows, ?late) \<and>
      (\<forall>row \<in> set ?rows. \<not> qualifies (sample_toolkit True) (project sample_contract) row)"
      using query [of True] wait [of True] kids [of Result_list ?late] none proj by simp
    with shown have "find_project (sample_toolkit True) sample_contract sample_session =
        Some (Inr (), ?late\<lparr>env := (env ?late)
          \<lparr>printed := printed (env ?late) @ [Not_found (contract_id_of sample_contract)]\<rparr>\<rparr>)"
      by blast
    then show ?thesis by (simp add: cid)
  qed
  have three: "find_row (sample_toolkit True) Result_list ''Brewery'' sample_session =
      (Inr None, sample_session)"
    using shown kids [of Result_list sample_session] none by blast
  have four: "fst (find_row (sample_toolkit True) Result_list ''Dairy farm'' sample_session) =
     Inr (Some '' Dairy farm '')"
  proof -
    have "(2::nat) < length ?rows" by simp
    with found kids [of Result_list sample_session] first
    have "fst (find_row (sample_toolkit True) Result_list ''Dairy farm'' sample_session) =
        Inr (Some (?rows ! 2))"
      by blast
    then show ?thesis by simp
  qed
  have slow: "\<forall>s. clock s \<le> clock (snd (is_enabled (sample_toolkit False) Delete_button s))"
    by (simp add: sample_toolkit_def)
  have never: "\<forall>k. fst (poll (is_enabled (sample_toolkit False) Delete_button) (1 / 10)
      sample_session k) = Inr False"
    by (simp add: poll_def sample_toolkit_def)
  have five: "\<exists>late. 10 < clock late - clock sample_session \<and>
      find_project (sample_toolkit False) sample_contract sample_session =
        Some (Inr (), late\<lparr>env := (env late)
          \<lparr>printed := printed (env late) @ [Not_found ''C-1'']\<rparr>\<rparr>)"
    using timeout [THEN conjunct2, THEN conjunct2, THEN conjunct2, THEN mp,
        OF conjI [OF query [of False] conjI [OF slow never]]]
    by (simp add: cid)
  from one two three four five show ?thesis by blast
qed



text \<open>
  C6. When \<open>prepare_tables\<close> returns, the tables of the database are the ones it had
  and the five of the fixed schema: \<open>banks\<close>, \<open>contracts\<close>, \<open>interest_rates\<close>, \<open>macros\<close>
  and \<open>errors\<close>. Every object that existed is left as it was, and each of the five that
  did not exist is created as declared, \<open>contracts\<close> referencing \<open>banks\<close> by \<open>bank_id\<close>,
  and \<open>interest_rates\<close>, \<open>macros\<close> and \<open>errors\<close> referencing \<open>contracts\<close> by \<open>id\<close>. It
  returns whenever the file can be opened and none of the five names is taken by an
  index. Entering the context is running \<open>prepare_tables\<close>.
\<close>

theorem prepare_tables_schema:
  "(prepare_tables db = Inr db' \<longrightarrow>
      dom (objects db') =
        dom (objects db) \<union> {''banks'', ''contracts'', ''interest_rates'', ''macros'', ''errors''} \<and>
      (\<forall>n x. objects db n = Some x \<longrightarrow> objects db' n = Some x) \<and>
      (\<forall>(n, t) \<in> set fixed_schema. objects db n = None \<longrightarrow> objects db' n = Some (Table t))) \<and>
   fixed_schema =
     [(''banks'', banks_table), (''contracts'', contracts_table),
      (''interest_rates'', interest_rates_table), (''macros'', macros_table),
      (''errors'', errors_table)] \<and>
   foreign_keys banks_table = [] \<and>
   foreign_keys contracts_table = [(''bank_id'', ''banks'', ''bank_id'')] \<and>
   foreign_keys interest_rates_table = [(''id'', ''contracts'', ''id'')] \<and>
   foreign_keys macros_table = [(''id'', ''contracts'', ''id'')] \<and>
   foreign_keys errors_table = [(''id'', ''contracts'', ''id'')] \<and>
   (available db \<and>
      (\<forall>n \<in> {''banks'', ''contracts'', ''interest_rates'', ''macros'', ''errors''}.
         objects db n \<noteq> Some Index) \<longrightarrow>
      (\<exists>db'. prepare_tables db = Inr db')) \<and>
   enter db = prepare_tables db"
proof (intro conjI impI)
  assume run: "prepare_tables db = Inr db'"
  note obj = prepare_tables_objects [OF run]
  show "dom (objects db') =
      dom (objects db) \<union> {''banks'', ''contracts'', ''interest_rates'', ''macros'', ''errors''}"
    unfolding obj dom_map_add dom_map_option_comp dom_map_of_conv_image_fst fixed_schema_names
    by (rule refl)
  show "\<forall>n x. objects db n = Some x \<longrightarrow> objects db' n = Some x"
    unfolding obj by (simp add: map_add_def)
  show "\<forall>(n, t) \<in> set fixed_schema. objects db n = None \<longrightarrow> objects db' n = Some (Table t)"
  proof (clarify)
    fix n t assume "(n, t) \<in> set fixed_schema" and "objects db n = None"
    moreover from this have "map_of fixed_schema n = Some t"
      using map_of_is_SomeI [OF distinct_fixed_schema] by blast
    ultimately show "objects db' n = Some (Table t)"
      unfolding obj by (simp add: map_add_def)
  qed
next
  show "fixed_schema =
     [(''banks'', banks_table), (''contracts'', contracts_table),
      (''interest_rates'', interest_rates_table), (''macros'', macros_table),
      (''errors'', errors_table)]"
    by (simp add: fixed_schema_def)
  show "foreign_keys banks_table = []" by (simp add: banks_table_def)
  show "foreign_keys contracts_table = [(''bank_id'', ''banks'', ''bank_id'')]"
    by (simp add: contracts_table_def)
  show "foreign_keys interest_rates_table = [(''id'', ''contracts'', ''id'')]"
    by (simp add: interest_rates_table_def)
  show "foreign_keys macros_table = [(''id'', ''contracts'', ''id'')]" by (simp add: macros_table_def)
  show "foreign_keys errors_table = [(''id'', ''contracts'', ''id'')]" by (simp add: errors_table_def)
next
  assume ok: "available db \<and>
      (\<forall>n \<in> {''banks'', ''contracts'', ''interest_rates'', ''macros'', ''errors''}.
         objects db n \<noteq> Some Index)"
  let ?db1 = "db\<lparr>pragmas := (pragmas db)(''journal_mode'' \<mapsto> ''WAL'')\<rparr>"
  from ok have "available ?db1" and "\<forall>n \<in> fst ` set fixed_schema. objects ?db1 n \<noteq> Some Index"
    by (simp_all add: fixed_schema_names)
  from create_all_ok [OF distinct_fixed_schema this]
  show "\<exists>db'. prepare_tables db = Inr db'"
    using ok by (simp add: prepare_tables_unfold execute_pragma)
next
  show "enter db = prepare_tables db"
    by (simp add: enter_def split: sum.splits)
qed

theorem prepare_tables_schema_witness:
  "available legacy_db \<and>
   (\<exists>db'. prepare_tables legacy_db = Inr db' \<and>
      objects db' ''banks'' = Some (Table legacy_banks) \<and>
      objects db' ''contracts'' = Some (Table contracts_table) \<and>
      objects db' ''errors'' = Some (Table errors_table) \<and>
      dom (objects db') = {''banks'', ''contracts'', ''interest_rates'', ''macros'', ''errors''})"
proof -
  have avail: "available legacy_db"
    by (simp add: legacy_db_def)
  have free: "\<forall>n \<in> {''banks'', ''contracts'', ''interest_rates'', ''macros'', ''errors''}.
      objects legacy_db n \<noteq> Some Index"
    by (simp add: legacy_db_def)
  have old: "objects legacy_db ''banks'' = Some (Table legacy_banks)"
    and new: "objects legacy_db ''contracts'' = None" "objects legacy_db ''errors'' = None"
    and names: "dom (objects legacy_db) = {''banks''}"
    by (simp_all add: legacy_db_def)
  have listed: "(''contracts'', contracts_table) \<in> set fixed_schema" "(''errors'', errors_table) \<in> set fixed_schema"
    by (simp_all add: fixed_schema_def)
  have "\<exists>db'. prepare_tables legacy_db = Inr db'"
    by (rule prepare_tables_schema [of legacy_db, THEN conjunct2, THEN conjunct2,
          THEN conjunct2, THEN conjunct2, THEN conjunct2, THEN conjunct2, THEN conjunct2,
          THEN conjunct1, THEN mp])
      (intro conjI avail free)
  then obtain db' where run: "prepare_tables legacy_db = Inr db'" ..
  note main = prepare_tables_schema [of legacy_db db', THEN conjunct1, THEN mp, OF run]
  note dom = main [THEN conjunct1]
  note kept = main [THEN conjunct2, THEN conjunct1]
  note made = main [THEN conjunct2, THEN conjunct2]
  have one: "objects db' ''banks'' = Some (Table legacy_banks)"
    by (rule kept [rule_format, OF old])
  have two: "objects db' ''contracts'' = Some (Table contracts_table)"
    using bspec [OF made listed(1)] new(1) by simp
  have three: "objects db' ''errors'' = Some (Table errors_table)"
    using bspec [OF made listed(2)] new(2) by simp
  have four: "dom (objects db') =
      {''banks'', ''contracts'', ''interest_rates'', ''macros'', ''errors''}"
    unfolding dom names by (rule Un_absorb1) simp
  show ?thesis
    by (intro conjI exI [of _ db'] avail run one two three four)
qed

text \<open>
  C7. With \<open>is_empty\<close> false and the report and the screenshot folder in place, the
  message that \<open>send_mail\<close> hands to SMTP holds the report file, the zip archive of the
  screenshot folder and the text body, in this order; with \<open>is_empty\<close> true it holds the
  text body alone. Once the message is composed, \<open>send_mail\<close> returns \<open>True\<close> exactly
  when the connection is made, \<open>sendmail\<close> returns no refused recipient and leaving the
  session raises nothing; it returns \<open>False\<close> and raises nothing when a recipient is
  refused, and when the connection, \<open>sendmail\<close> or the end of the session raises an
  \<open>SMTPException\<close>.
\<close>

theorem send_mail_spec:
  "(files fs (report_path (mail_info job)) = Some report \<and>
      screenshot_folder (mail_info job) \<in> folders fs \<longrightarrow>
      (\<exists>msg fs'. compose svc job False fs = (Inr msg, fs') \<and>
         parts msg =
           [Attachment (path_name (report_path (mail_info job))) report,
            Attachment (''screenshots_'' @ short (t_end (t_range job)) @ ''.zip'')
              (Zip_of (screenshot_folder (mail_info job))),
            Html_text (Orders_body (subject (mail_info job))
              (short (t_start (t_range job))) (short (t_end (t_range job))))])) \<and>
   (\<exists>msg. compose svc job True fs = (Inr msg, fs) \<and>
      parts msg =
        [Html_text (No_orders_body (subject (mail_info job))
           (short (t_start (t_range job))) (short (t_end (t_range job))))]) \<and>
   (compose svc job is_empty fs = (Inr msg, fs') \<longrightarrow>
      (fst (send_mail svc job is_empty fs) = Inr True \<longleftrightarrow>
         smtp_connect svc (server (mail_info job)) = None \<and>
         sendmail svc (sender (mail_info job)) (recipients_lst (recipients (mail_info job))) msg =
           Inr [] \<and>
         smtp_exit svc = None) \<and>
      (smtp_connect svc (server (mail_info job)) = None \<and>
         (\<exists>r rs. sendmail svc (sender (mail_info job))
            (recipients_lst (recipients (mail_info job))) msg = Inr (r # rs)) \<longrightarrow>
         fst (send_mail svc job is_empty fs) = Inr False) \<and>
      (\<forall>e. isinstance e SMTPException \<and>
         (smtp_connect svc (server (mail_info job)) = Some e \<or>
          smtp_connect svc (server (mail_info job)) = None \<and>
            (sendmail svc (sender (mail_info job))
               (recipients_lst (recipients (mail_info job))) msg = Inl e \<or>
             smtp_exit svc = Some e)) \<longrightarrow>
         fst (send_mail svc job is_empty fs) = Inr False))"
proof (intro conjI impI allI)
  assume "files fs (report_path (mail_info job)) = Some report \<and>
      screenshot_folder (mail_info job) \<in> folders fs"
  then show "\<exists>msg fs'. compose svc job False fs = (Inr msg, fs') \<and>
         parts msg =
           [Attachment (path_name (report_path (mail_info job))) report,
            Attachment (''screenshots_'' @ short (t_end (t_range job)) @ ''.zip'')
              (Zip_of (screenshot_folder (mail_info job))),
            Html_text (Orders_body (subject (mail_info job))
              (short (t_start (t_range job))) (short (t_end (t_range job))))]"
    using compose_full by blast
next
  show "\<exists>msg. compose svc job True fs = (Inr msg, fs) \<and>
      parts msg =
        [Html_text (No_orders_body (subject (mail_info job))
           (short (t_start (t_range job))) (short (t_end (t_range job))))]"
    by (simp add: compose_empty)
next
  assume c: "compose svc job is_empty fs = (Inr msg, fs')"
  note r = send_mail_result [OF c]
  show "fst (send_mail svc job is_empty fs) = Inr True \<longleftrightarrow>
         smtp_connect svc (server (mail_info job)) = None \<and>
         sendmail svc (sender (mail_info job)) (recipients_lst (recipients (mail_info job))) msg =
           Inr [] \<and>
         smtp_exit svc = None"
    unfolding r
    by (auto simp: smtp_session_def Let_def split: option.splits sum.splits if_splits)
next
  assume c: "compose svc job is_empty fs = (Inr msg, fs')"
    and refused: "smtp_connect svc (server (mail_info job)) = None \<and>
         (\<exists>r rs. sendmail svc (sender (mail_info job))
            (recipients_lst (recipients (mail_info job))) msg = Inr (r # rs))"
  note r = send_mail_result [OF c]
  have "smtp_exit svc = None \<or> smtp_exit svc = Some (Raised SMTPResponseException ''QUIT refused'')"
    by (simp add: smtp_exit_def split: option.splits)
  with refused show "fst (send_mail svc job is_empty fs) = Inr False"
    unfolding r by (auto simp: smtp_session_def Let_def)
next
  fix e
  assume c: "compose svc job is_empty fs = (Inr msg, fs')"
    and raised: "isinstance e SMTPException \<and>
         (smtp_connect svc (server (mail_info job)) = Some e \<or>
          smtp_connect svc (server (mail_info job)) = None \<and>
            (sendmail svc (sender (mail_info job))
               (recipients_lst (recipients (mail_info job))) msg = Inl e \<or>
             smtp_exit svc = Some e))"
  note r = send_mail_result [OF c]
  have quit: "smtp_exit svc = None \<or>
      smtp_exit svc = Some (Raised SMTPResponseException ''QUIT refused'')"
    by (simp add: smtp_exit_def split: option.splits)
  from raised quit show "fst (send_mail svc job is_empty fs) = Inr False"
    unfolding r by (auto simp: smtp_session_def Let_def split: sum.splits)
qed

theorem send_mail_spec_witness:
  "(send_mail accepting_service sample_job True sample_fs = (Inr True, sample_fs) \<and>
   fst (send_mail accepting_service sample_job False sample_fs) = Inr True \<and>
   fst (send_mail refusing_service sample_job False sample_fs) = Inr False \<and>
   (\<exists>msg fs'. compose accepting_service sample_job False sample_fs = (Inr msg, fs') \<and>
      parts msg =
        [Attachment ''report.xlsx'' (Bytes ''PK-xlsx''),
         Attachment ''screenshots_07.03.24.zip'' (Zip_of [''screenshots'']),
         Html_text (Orders_body ''Vacation orders'' ''01.03.24'' ''07.03.24'')])) \<and>
   (fst (send_mail rejecting_service sample_job True sample_fs) = Inr False)"
proof -
  have earlier:
    "send_mail accepting_service sample_job True sample_fs = (Inr True, sample_fs) \<and>
     fst (send_mail accepting_service sample_job False sample_fs) = Inr True \<and>
     fst (send_mail refusing_service sample_job False sample_fs) = Inr False \<and>
     (\<exists>msg fs'. compose accepting_service sample_job False sample_fs = (Inr msg, fs') \<and>
        parts msg =
          [Attachment ''report.xlsx'' (Bytes ''PK-xlsx''),
           Attachment ''screenshots_07.03.24.zip'' (Zip_of [''screenshots'']),
           Html_text (Orders_body ''Vacation orders'' ''01.03.24'' ''07.03.24'')])"
  proof -
    have report: "files sample_fs (report_path (mail_info sample_job)) = Some (Bytes ''PK-xlsx'') \<and>
        screenshot_folder (mail_info sample_job) \<in> folders sample_fs"
      by (simp add: sample_fs_def sample_job_def)
    have fields: "path_name (report_path (mail_info sample_job)) = ''report.xlsx''"
      "short (t_end (t_range sample_job)) = ''07.03.24''"
      "short (t_start (t_range sample_job)) = ''01.03.24''"
      "subject (mail_info sample_job) = ''Vacation orders''"
      "screenshot_folder (mail_info sample_job) = [''screenshots'']"
      by (simp_all add: sample_job_def path_name_def)
    have rcpts: "recipients_lst (recipients (mail_info sample_job)) =
        [''hr@mail.local'', ''boss@mail.local'']"
      by (simp add: sample_job_def recipients_lst_def)
    have ok: "smtp_connect accepting_service h = None" "sendmail accepting_service x y z = Inr []"
      "smtp_exit accepting_service = None" for h x y z
      by (simp_all add: accepting_service_def smtp_exit_def)
    have no: "smtp_connect refusing_service h = None"
      "sendmail refusing_service x y z = Inr [(''boss@mail.local'', ''550 mailbox unavailable'')]"
      for h x y z
      by (simp_all add: refusing_service_def)
    note full = send_mail_spec [where svc = accepting_service and job = sample_job
        and fs = sample_fs and report = "Bytes ''PK-xlsx''", THEN conjunct1, THEN mp, OF report]
    then obtain msg fs' where msg: "compose accepting_service sample_job False sample_fs = (Inr msg, fs')"
      and parts: "parts msg =
          [Attachment ''report.xlsx'' (Bytes ''PK-xlsx''),
           Attachment ''screenshots_07.03.24.zip'' (Zip_of [''screenshots'']),
           Html_text (Orders_body ''Vacation orders'' ''01.03.24'' ''07.03.24'')]"
      unfolding fields by auto
    have two: "fst (send_mail accepting_service sample_job False sample_fs) = Inr True"
      using send_mail_spec [where svc = accepting_service and job = sample_job
        and fs = sample_fs and is_empty = False and msg = msg and fs' = fs',
        THEN conjunct2, THEN conjunct2, THEN mp, OF msg, THEN conjunct1] ok
      by simp
    obtain msg0 where msg0: "compose accepting_service sample_job True sample_fs = (Inr msg0, sample_fs)"
      using send_mail_spec [where svc = accepting_service and job = sample_job
        and fs = sample_fs, THEN conjunct2, THEN conjunct1]
      by blast
    have "fst (send_mail accepting_service sample_job True sample_fs) = Inr True"
      using send_mail_spec [where svc = accepting_service and job = sample_job
        and fs = sample_fs and is_empty = True and msg = msg0 and fs' = sample_fs,
        THEN conjunct2, THEN conjunct2, THEN mp, OF msg0, THEN conjunct1] ok
      by simp
    moreover have "snd (send_mail accepting_service sample_job True sample_fs) = sample_fs"
      using msg0 by (simp add: send_mail_def split: sum.splits)
    ultimately have one: "send_mail accepting_service sample_job True sample_fs = (Inr True, sample_fs)"
      by (simp add: prod_eq_iff)
    obtain msg' fs'' where msg': "compose refusing_service sample_job False sample_fs = (Inr msg', fs'')"
      using send_mail_spec [where svc = refusing_service and job = sample_job
        and fs = sample_fs and report = "Bytes ''PK-xlsx''", THEN conjunct1, THEN mp, OF report]
      by blast
    have three: "fst (send_mail refusing_service sample_job False sample_fs) = Inr False"
      using send_mail_spec [where svc = refusing_service and job = sample_job
        and fs = sample_fs and is_empty = False and msg = msg' and fs' = fs'',
        THEN conjunct2, THEN conjunct2, THEN mp, OF msg', THEN conjunct2, THEN conjunct1] no
      by simp
    from one two three msg parts show ?thesis by blast
  qed
  have further:
    "fst (send_mail rejecting_service sample_job True sample_fs) = Inr False"
  proof -
    have down: "smtp_connect rejecting_service h = None"
      "sendmail rejecting_service x y z = Inl (Raised SMTPRecipientsRefused ''all recipients refused'')"
      for h x y z
      by (simp_all add: rejecting_service_def)
    have smtp: "issubclass SMTPRecipientsRefused SMTPException"
      by (simp add: issubclass_def eval_nat_numeral)
    obtain msg1 where msg1: "compose rejecting_service sample_job True sample_fs = (Inr msg1, sample_fs)"
      using send_mail_spec [where svc = rejecting_service and job = sample_job
        and fs = sample_fs, THEN conjunct2, THEN conjunct1]
      by blast
    show ?thesis
      by (rule send_mail_spec [where svc = rejecting_service and job = sample_job
        and fs = sample_fs and is_empty = True and msg = msg1 and fs' = sample_fs,
        THEN conjunct2, THEN conjunct2, THEN mp, OF msg1, THEN conjunct2, THEN conjunct2,
        rule_format, where e = "Raised SMTPRecipientsRefused ''all recipients refused''"])
        (simp add: down smtp)
  qed
  from earlier further show ?thesis by (rule conjI)
qed



text \<open>
  C9. \<open>iso_to_standard\<close> is idempotent. A string with a dot at indices 2 and 5 is
  returned unchanged; a string that \<open>fromisoformat\<close> parses comes back as
  \<open>%d.%m.%Y\<close>, which has a dot at indices 2 and 5; so every result of
  \<open>iso_to_standard\<close> is a fixed point of it.
\<close>

theorem iso_to_standard_idempotent:
  "(5 < length txt \<and> txt ! 2 = CHR ''.'' \<and> txt ! 5 = CHR ''.'' \<longrightarrow>
      iso_to_standard parse_iso txt = Inr txt) \<and>
   (iso_to_standard parse_iso txt = Inr r \<longrightarrow>
      5 < length r \<and> r ! 2 = CHR ''.'' \<and> r ! 5 = CHR ''.'' \<and>
      (r = txt \<or> (\<exists>d. fromisoformat parse_iso txt = Inr d \<and> r = strftime_dmY d)) \<and>
      iso_to_standard parse_iso r = Inr r)"
proof (intro conjI impI)
  assume "5 < length txt \<and> txt ! 2 = CHR ''.'' \<and> txt ! 5 = CHR ''.''"
  then show "iso_to_standard parse_iso txt = Inr txt"
    by (simp add: iso_to_standard_dotted)
next
  assume res: "iso_to_standard parse_iso txt = Inr r"
  have parsed: "5 < length (strftime_dmY d) \<and> strftime_dmY d ! 2 = CHR ''.'' \<and>
      strftime_dmY d ! 5 = CHR ''.''" if "fromisoformat parse_iso txt = Inr d" for d
  proof -
    from that have "valid_datetime d"
      by (auto simp: fromisoformat_def split: sum.splits if_splits)
    then show ?thesis by (rule strftime_dmY_dots)
  qed
  from res have shape: "(5 < length txt \<and> txt ! 2 = CHR ''.'' \<and> txt ! 5 = CHR ''.'' \<and> r = txt) \<or>
      (\<exists>d. fromisoformat parse_iso txt = Inr d \<and> r = strftime_dmY d)"
    by (cases "fromisoformat parse_iso txt")
      (auto simp: iso_to_standard_def str_index_def split: if_splits)
  with parsed show dots5: "5 < length r" by auto
  from shape parsed show dots2: "r ! 2 = CHR ''.''" by auto
  from shape parsed show dots: "r ! 5 = CHR ''.''" by auto
  from shape show "r = txt \<or> (\<exists>d. fromisoformat parse_iso txt = Inr d \<and> r = strftime_dmY d)"
    by auto
  from dots5 dots2 dots show "iso_to_standard parse_iso r = Inr r"
    by (rule iso_to_standard_dotted)
qed

theorem iso_to_standard_idempotent_witness:
  "iso_to_standard parse_iso_date ''2024-03-07'' = Inr ''07.03.2024'' \<and>
   iso_to_standard parse_iso_date ''07.03.2024'' = Inr ''07.03.2024'' \<and>
   iso_to_standard parse_iso_date ''07.03.24'' = Inr ''07.03.24''"
proof -
  have parsed: "parse_iso_date ''2024-03-07'' =
      Inr \<lparr>year = 2024, month = 3, day = 7, hour = 0, minute = 0, second = 0, microsecond = 0\<rparr>"
    by (simp add: parse_iso_date_def number_val_def digit_val_def)
  have valid: "valid_datetime
      \<lparr>year = 2024, month = 3, day = 7, hour = 0, minute = 0, second = 0, microsecond = 0\<rparr>"
    by (simp add: valid_datetime_def days_in_month_def)
  have shown: "strftime_dmY
      \<lparr>year = 2024, month = 3, day = 7, hour = 0, minute = 0, second = 0, microsecond = 0\<rparr> =
      ''07.03.2024''"
    by (simp add: strftime_dmY_def zfill_def dec_small dec_ge10 digit_char_def)
  have run: "iso_to_standard parse_iso_date ''2024-03-07'' = Inr ''07.03.2024''"
    by (simp add: iso_to_standard_def str_index_def fromisoformat_def parsed valid shown)
  show ?thesis
    using iso_to_standard_idempotent [of "''2024-03-07''" parse_iso_date "''07.03.2024''"]
      iso_to_standard_idempotent [of "''07.03.24''" parse_iso_date] run
    by simp
qed

text \<open>
  C10. \<open>text_to_float\<close> returns \<open>float\<close> of the text with every comma replaced by a
  dot when that conversion succeeds. When the conversion raises \<open>ValueError\<close>, the
  default is returned only if it is a float; for every other default (an integer,
  \<open>None\<close>, a boolean, a string) the same error reaches the caller.
\<close>

theorem text_to_float_spec:
  "(float_of_str (map (\<lambda>c. if c = CHR '','' then CHR ''.'' else c) txt) = Inr r \<longrightarrow>
      text_to_float float_of_str txt dflt = Inr r) \<and>
   (float_of_str (map (\<lambda>c. if c = CHR '','' then CHR ''.'' else c) txt) = Inl err \<and>
      isinstance err ValueError \<longrightarrow>
      text_to_float float_of_str txt (PyFloat d) = Inr d \<and>
      text_to_float float_of_str txt (PyInt n) = Inl err \<and>
      text_to_float float_of_str txt PyNone = Inl err \<and>
      ((\<forall>x. dflt \<noteq> PyFloat x) \<longrightarrow> text_to_float float_of_str txt dflt = Inl err))"
  by (cases dflt) (simp_all add: text_to_float_def replace_char_def)

theorem text_to_float_spec_witness:
  "text_to_float decimal_float ''12,5'' PyNone = Inr (25 / 2) \<and>
   text_to_float decimal_float ''n/a'' (PyFloat 7) = Inr 7 \<and>
   text_to_float decimal_float ''n/a'' (PyInt 7) =
     Inl (Raised ValueError ''could not convert string to float'') \<and>
   text_to_float decimal_float ''n/a'' PyNone =
     Inl (Raised ValueError ''could not convert string to float'') \<and>
   text_to_float decimal_float ''n/a'' (PyStr ''0'') =
     Inl (Raised ValueError ''could not convert string to float'')"
proof -
  have ok: "decimal_float (map (\<lambda>c. if c = CHR '','' then CHR ''.'' else c) ''12,5'') = Inr (25 / 2)"
    by (simp add: decimal_float_def number_val_def digit_val_def)
  have bad: "decimal_float (map (\<lambda>c. if c = CHR '','' then CHR ''.'' else c) ''n/a'') =
      Inl (Raised ValueError ''could not convert string to float'')"
    by (simp add: decimal_float_def number_val_def digit_val_def)
  have cls: "isinstance (Raised ValueError ''could not convert string to float'') ValueError"
    by simp
  show ?thesis
    using text_to_float_spec [of decimal_float "''12,5''" "25 / 2" PyNone]
      text_to_float_spec [of decimal_float "''n/a''" _ "PyStr ''0''"
        "Raised ValueError ''could not convert string to float''" 7 7]
      ok bad cls
    by simp
qed

end
